theory Spec2Isabelle
  imports Main "HOL-Library.AList"
begin

section \<open>Common types\<close>

text \<open>
  Instants are milliseconds since the epoch, the value of \<^verbatim>\<open>new Date(s).getTime()\<close>
  for a date string \<^verbatim>\<open>s\<close>. A dictionary (\<^verbatim>\<open>Record<string, string>\<close>) is an
  association list; the object spread \<^verbatim>\<open>{...payload, ackEventName: v}\<close> is
  \<open>AList.update\<close>: an existing key keeps its place and takes the new value, a
  new key is appended.
\<close>

type_synonym timestamp = int
type_synonym dictionary = "(string \<times> string) list"

datatype JobType = SINGLE | CRON

text \<open>
  The exceptions of the two services. \<open>JobException message cause jobId\<close> wraps the
  message of the \<^verbatim>\<open>Error\<close> caught by the engine's \<^verbatim>\<open>catch\<close> block.
  \<open>BusError\<close> is the failure of a publication on the event bus (the spec's name:
  the events service is not among the sources).
\<close>

datatype error =
    TaskNotFoundException string
  | ScheduleNotFoundException string
  | DatabaseException string
  | JobException string string string
  | BusError string

text \<open>
  Every operation runs on a state and either returns or throws; the state reached so
  far is kept in both cases (nothing is rolled back). \<open>andThen\<close> is \<^verbatim>\<open>await\<close>
  followed by the rest of the \<^verbatim>\<open>async\<close> body.
\<close>

type_synonym ('a, 's) op = "'s \<Rightarrow> (error + 'a) \<times> 's"

definition ret :: "'a \<Rightarrow> ('a, 's) op" where
  "ret x s = (Inr x, s)"

definition throw :: "error \<Rightarrow> ('a, 's) op" where
  "throw e s = (Inl e, s)"

definition andThen :: "('a, 's) op \<Rightarrow> ('a \<Rightarrow> ('b, 's) op) \<Rightarrow> ('b, 's) op" where
  "andThen m f s = (case m s of (Inl e, s') \<Rightarrow> (Inl e, s') | (Inr x, s') \<Rightarrow> f x s')"

section \<open>Job Execution Engine: jobs/src/jobs/jobs.service.ts\<close>

subsection \<open>The queue\<close>

text \<open>
  The BullMQ queue is the engine's storage. A job keeps the name, the data and the
  options it was added with; its id is the \<^verbatim>\<open>jobId\<close> option (every job of this
  service is added with one), and \<open>job_timestamp\<close> is the time it was added. A job
  scheduler is stored under its key with its pattern and its job template.
\<close>

record job_opts =
  delay :: int
  jobId :: string

record job =
  job_name :: string
  job_data :: dictionary
  job_opts :: job_opts
  job_timestamp :: timestamp

definition job_id :: "job \<Rightarrow> string" where
  "job_id j = jobId (job_opts j)"

record job_scheduler =
  sch_key :: string
  sch_name :: string
  sch_pattern :: string
  sch_data :: dictionary
  sch_opts :: dictionary

record engine =
  queue :: "job list"
  schedulers :: "job_scheduler list"

definition getJob :: "string \<Rightarrow> engine \<Rightarrow> job option" where
  "getJob i e = find (\<lambda>j. job_id j = i) (queue e)"

definition job_remove :: "job \<Rightarrow> engine \<Rightarrow> engine" where
  "job_remove j e = e\<lparr>queue := filter (\<lambda>k. job_id k \<noteq> job_id j) (queue e)\<rparr>"

text \<open>
  \<^verbatim>\<open>queue.add(name, data, opts)\<close>: a job whose id is already in the queue is not added
  again; the call still returns the job object it built.
\<close>

definition queue_add :: "timestamp \<Rightarrow> string \<Rightarrow> dictionary \<Rightarrow> job_opts \<Rightarrow> engine \<Rightarrow> job \<times> engine" where
  "queue_add now n d opts e =
     (let j = \<lparr>job_name = n, job_data = d, job_opts = opts, job_timestamp = now\<rparr>
      in (j, if getJob (job_id j) e = None then e\<lparr>queue := queue e @ [j]\<rparr> else e))"

definition getJobScheduler :: "string \<Rightarrow> engine \<Rightarrow> job_scheduler option" where
  "getJobScheduler k e = find (\<lambda>s. sch_key s = k) (schedulers e)"

fun upsert :: "job_scheduler \<Rightarrow> job_scheduler list \<Rightarrow> job_scheduler list" where
  "upsert n [] = [n]"
| "upsert n (s # ss) = (if sch_key s = sch_key n then n # ss else s # upsert n ss)"

text \<open>
  \<^verbatim>\<open>queue.upsertJobScheduler(key, {pattern}, {name, data, opts})\<close> parses the pattern
  first. The parser is BullMQ's, not this repository's, so it is a parameter of the
  model: \<open>cronError pattern\<close> is \<open>None\<close> when the pattern parses and \<open>Some msg\<close>
  when the parser throws an \<^verbatim>\<open>Error\<close> with the message \<open>msg\<close>; the call then
  throws that error (\<open>Inl msg\<close>) and stores nothing. Otherwise it creates the
  scheduler or replaces the one stored under the key and returns the next job, which
  carries the template's name. The jobs a scheduler produces are not part of the
  model.
\<close>

definition upsertJobScheduler ::
  "(string \<Rightarrow> string option) \<Rightarrow> string \<Rightarrow> string \<Rightarrow> string \<Rightarrow> dictionary \<Rightarrow> dictionary \<Rightarrow>
   engine \<Rightarrow> (string + string) \<times> engine" where
  "upsertJobScheduler cronError k pat n d opts e =
     (case cronError pat of
        Some msg \<Rightarrow> (Inl msg, e)
      | None \<Rightarrow>
          (Inr n, e\<lparr>schedulers :=
             upsert \<lparr>sch_key = k, sch_name = n, sch_pattern = pat, sch_data = d, sch_opts = opts\<rparr>
               (schedulers e)\<rparr>))"

definition removeJobScheduler :: "string \<Rightarrow> engine \<Rightarrow> engine" where
  "removeJobScheduler k e = e\<lparr>schedulers := filter (\<lambda>s. sch_key s \<noteq> k) (schedulers e)\<rparr>"

subsection \<open>Requests and replies\<close>

record JobScheduleSingleDto =
  ss_name :: string
  ss_executionDate :: timestamp
  ss_ackEventName :: string
  ss_payload :: dictionary

record JobScheduleCronDto =
  sc_name :: string
  sc_cron :: string
  sc_ackEventName :: string
  sc_payload :: dictionary

record JobRescheduleSingleDto =
  rs_id :: string
  rs_executionDate :: timestamp

record JobRescheduleCronDto =
  rc_id :: string
  rc_cron :: string

record SingleJob =
  sj_id :: string
  sj_name :: string
  sj_executionDate :: timestamp
  sj_type :: JobType

record CronJob =
  cj_id :: string
  cj_name :: string
  cj_cron :: string
  cj_type :: JobType

text \<open>\<^verbatim>\<open>x || d\<close> on strings: the empty string is falsy.\<close>

definition or_else :: "string \<Rightarrow> string \<Rightarrow> string" where
  "or_else x d = (if x = [] then d else x)"

subsection \<open>The service\<close>

text \<open>
  \<open>now\<close> is the reading of \<^verbatim>\<open>new Date().getTime()\<close> and \<open>uuid\<close> the value of
  \<^verbatim>\<open>uuidv4()\<close> in the call. \<open>scheduleSingle\<close> computes the delay and adds the job;
  there is no test on the delay. The \<^verbatim>\<open>catch\<close> blocks of \<open>scheduleCron\<close> and
  \<open>rescheduleCron\<close> wrap the error of the pattern parser in a \<open>JobException\<close>.
\<close>

definition scheduleSingle :: "timestamp \<Rightarrow> string \<Rightarrow> JobScheduleSingleDto \<Rightarrow> (SingleJob, engine) op" where
  "scheduleSingle now uuid dto e =
     (let d = ss_executionDate dto - now;
          i = uuid;
          (j, e') = queue_add now (ss_name dto)
                      (AList.update ''ackEventName'' (ss_ackEventName dto) (ss_payload dto))
                      \<lparr>delay = d, jobId = i\<rparr> e
      in (Inr \<lparr>sj_id = or_else (job_id j) ''no-id'', sj_name = job_name j,
               sj_executionDate = ss_executionDate dto, sj_type = SINGLE\<rparr>, e'))"

definition scheduleCron ::
  "(string \<Rightarrow> string option) \<Rightarrow> string \<Rightarrow> JobScheduleCronDto \<Rightarrow> (CronJob, engine) op" where
  "scheduleCron cronError uuid dto e =
     (let scheudulerId = uuid
      in case upsertJobScheduler cronError scheudulerId (sc_cron dto) (sc_name dto)
                (AList.update ''ackEventName'' (sc_ackEventName dto) (sc_payload dto)) [] e of
           (Inl err, e') \<Rightarrow>
             (Inl (JobException ''error while scheduling cron job'' err scheudulerId), e')
         | (Inr n, e') \<Rightarrow>
             (Inr \<lparr>cj_id = scheudulerId, cj_name = n, cj_cron = sc_cron dto, cj_type = CRON\<rparr>,
              e'))"

definition rescheduleSingle :: "timestamp \<Rightarrow> JobRescheduleSingleDto \<Rightarrow> (SingleJob, engine) op" where
  "rescheduleSingle now dto e =
     (case getJob (rs_id dto) e of
        None \<Rightarrow>
          (Inl (JobException ''error while rescheduling single job''
                  ''Cannot reschedule single job, because it does not exist'' (rs_id dto)), e)
      | Some j \<Rightarrow>
          (let newDelay = rs_executionDate dto - now
           in if newDelay \<le> 0 then
                (Inl (JobException ''error while rescheduling single job''
                        ''Cannot reschedule single job with date in the past'' (rs_id dto)), e)
              else
                (let e1 = job_remove j e;
                     (_, e2) = queue_add now (job_name j) (job_data j)
                                 ((job_opts j)\<lparr>delay := newDelay\<rparr>) e1
                 in (Inr \<lparr>sj_id = or_else (job_id j) ''no-id'', sj_name = job_name j,
                          sj_executionDate = rs_executionDate dto, sj_type = SINGLE\<rparr>, e2))))"

definition rescheduleCron ::
  "(string \<Rightarrow> string option) \<Rightarrow> JobRescheduleCronDto \<Rightarrow> (CronJob, engine) op" where
  "rescheduleCron cronError dto e =
     (case getJobScheduler (rc_id dto) e of
        None \<Rightarrow>
          (Inl (JobException ''error while rescheduling cron job''
                  (''Cannot reschedule cron job with id '' @ rc_id dto @ '', because it does not exist'')
                  (rc_id dto)), e)
      | Some s \<Rightarrow>
          (case upsertJobScheduler cronError (sch_key s) (rc_cron dto) (sch_name s)
                  (sch_data s) (sch_opts s) e of
             (Inl err, e') \<Rightarrow>
               (Inl (JobException ''error while rescheduling cron job'' err (rc_id dto)), e')
           | (Inr _, e') \<Rightarrow>
               (Inr \<lparr>cj_id = sch_key s, cj_name = sch_name s, cj_cron = rc_cron dto,
                     cj_type = CRON\<rparr>, e')))"

definition unscheduleSingle :: "string \<Rightarrow> (SingleJob, engine) op" where
  "unscheduleSingle i e =
     (case getJob i e of
        None \<Rightarrow>
          (Inl (JobException ''error while unscheduling single job''
                  ''Cannot reschedule single job, because it does not exist'' i), e)
      | Some j \<Rightarrow>
          (Inr \<lparr>sj_id = or_else (job_id j) ''no-id'', sj_name = job_name j,
                sj_executionDate = job_timestamp j + delay (job_opts j), sj_type = SINGLE\<rparr>,
           job_remove j e))"

definition unscheduleCron :: "string \<Rightarrow> (CronJob, engine) op" where
  "unscheduleCron i e =
     (case getJobScheduler i e of
        None \<Rightarrow>
          (Inl (JobException ''error while unscheduling cron job''
                  ''Cannot unschedule cron job, because it does not exist'' i), e)
      | Some s \<Rightarrow>
          (Inr \<lparr>cj_id = sch_key s, cj_name = sch_name s,
                cj_cron = or_else (sch_pattern s) ''no-pattern'', cj_type = CRON\<rparr>,
           removeJobScheduler (sch_key s) e))"

section \<open>The schedules service: state and tables\<close>

text \<open>
  The schedules service owns three tables: tasks, schedules (only the ids matter
  here) and the Job Store (\<^verbatim>\<open>jobsTable\<close>). The jobs service is reached over gRPC; its
  engine state is part of the world, next to the events published on the bus and the
  errors written to the log.
\<close>

datatype TaskStatus = NOT_STARTED | IN_PROGRESS | DONE | FAILED

record DbTask =
  t_id :: string
  t_name :: string
  t_description :: "string option"
  t_status :: TaskStatus
  t_dueTo :: "timestamp option"
  t_repeat :: "string option"
  t_userId :: string
  t_priority :: int
  t_fixed :: bool
  t_startTime :: "string option"
  t_endTime :: "string option"
  t_createdAt :: timestamp
  t_updatedAt :: timestamp
  t_scheduleId :: string

text \<open>
  \<^verbatim>\<open>TasksMapper.dbToDomain\<close> turns the three dates of a row into ISO strings. With
  dates as instants the domain task has the fields of the row.
\<close>

type_synonym Task = DbTask

definition dbToDomain :: "DbTask \<Rightarrow> Task" where
  "dbToDomain dbTask = dbTask"

record DbJob =
  dbj_id :: string
  dbj_type :: JobType
  dbj_taskId :: string

record TaskEventPayload =
  ev_task_id :: string
  ev_task_userId :: string

record world =
  tasksTable :: "DbTask list"
  schedulesTable :: "string list"
  jobsTable :: "DbJob list"
  jobsEngine :: engine
  published :: "(string \<times> TaskEventPayload) list"
  errorLog :: "(string \<times> error) list"

text \<open>
  What a call reads from outside the state: the clock, the id the database generates
  for a new task row (\<^verbatim>\<open>uuid().defaultRandom()\<close>), the two values of
  \<^verbatim>\<open>uuidv4()\<close> the engine may draw, one for a single job and one for a scheduler,
  and the verdict of the engine's pattern parser.
\<close>

record env =
  env_now :: timestamp
  env_taskUuid :: string
  env_singleUuid :: string
  env_cronUuid :: string
  env_cronError :: "string \<Rightarrow> string option"

text \<open>
  A patch field is \<^verbatim>\<open>undefined\<close>, \<^verbatim>\<open>null\<close> or a value. JavaScript truthiness of an
  optional string: \<^verbatim>\<open>undefined\<close>, \<^verbatim>\<open>null\<close> and the empty string are falsy. A date
  string stands for its instant and is never empty, so a date value is always truthy.
\<close>

datatype 'a patch = Undefined | Null | Value 'a

definition truthy :: "string option \<Rightarrow> bool" where
  "truthy x = (case x of None \<Rightarrow> False | Some v \<Rightarrow> v \<noteq> [])"

record whereClause =
  w_id :: string
  w_userId :: "string option"

subsection \<open>TasksRepository (schedules/src/tasks/tasks.repository.ts)\<close>

text \<open>
  The \<^verbatim>\<open>where\<close> of \<open>findOne\<close>, \<open>update\<close> and \<open>remove\<close>: the id, and the user id when
  it is truthy.
\<close>

definition matches :: "whereClause \<Rightarrow> DbTask \<Rightarrow> bool" where
  "matches w t = (t_id t = w_id w \<and> (truthy (w_userId w) \<longrightarrow> Some (t_userId t) = w_userId w))"

definition TasksRepository_findOne :: "whereClause \<Rightarrow> (DbTask option, world) op" where
  "TasksRepository_findOne w s = (Inr (find (matches w) (tasksTable s)), s)"

text \<open>
  The fields \<open>TasksService.update\<close> hands to the repository. Drizzle's \<^verbatim>\<open>set\<close> skips
  a field that is \<^verbatim>\<open>undefined\<close>, writes NULL for \<^verbatim>\<open>null\<close>, and the column
  \<^verbatim>\<open>updatedAt\<close> takes the current time on every update (\<^verbatim>\<open>$onUpdateFn\<close>). When
  every field is \<^verbatim>\<open>undefined\<close>, \<^verbatim>\<open>set\<close> throws (no values to set) before any row is
  read, and the repository rethrows it as \<^verbatim>\<open>DatabaseException\<close>.
\<close>

record TasksUpdateFields =
  uf_description :: "string patch"
  uf_dueTo :: "timestamp patch"
  uf_name :: "string option"
  uf_repeat :: "string patch"
  uf_scheduleId :: "string option"
  uf_status :: "TaskStatus option"

definition set_nullable :: "'a patch \<Rightarrow> 'a option \<Rightarrow> 'a option" where
  "set_nullable p old = (case p of Undefined \<Rightarrow> old | Null \<Rightarrow> None | Value v \<Rightarrow> Some v)"

definition set_column :: "'a option \<Rightarrow> 'a \<Rightarrow> 'a" where
  "set_column p old = (case p of None \<Rightarrow> old | Some v \<Rightarrow> v)"

definition set_fields :: "timestamp \<Rightarrow> TasksUpdateFields \<Rightarrow> DbTask \<Rightarrow> DbTask" where
  "set_fields now f t =
     t\<lparr>t_description := set_nullable (uf_description f) (t_description t),
       t_dueTo := set_nullable (uf_dueTo f) (t_dueTo t),
       t_name := set_column (uf_name f) (t_name t),
       t_repeat := set_nullable (uf_repeat f) (t_repeat t),
       t_scheduleId := set_column (uf_scheduleId f) (t_scheduleId t),
       t_status := set_column (uf_status f) (t_status t),
       t_updatedAt := now\<rparr>"

text \<open>No field of the patch has a value: what \<^verbatim>\<open>set\<close> refuses.\<close>

definition no_values :: "TasksUpdateFields \<Rightarrow> bool" where
  "no_values f =
     (uf_description f = Undefined \<and> uf_dueTo f = Undefined \<and> uf_name f = None \<and>
      uf_repeat f = Undefined \<and> uf_scheduleId f = None \<and> uf_status f = None)"

text \<open>
  The database rejects a row whose \<^verbatim>\<open>scheduleId\<close> is not the id of a schedule
  (foreign key), a second task row with the same id (primary key), and the deletion
  of a task row that a Job Store row references (\<^verbatim>\<open>jobsTable.taskId\<close> references
  \<^verbatim>\<open>tasksTable.id\<close>); the repository rethrows these as \<^verbatim>\<open>DatabaseException\<close>.
  Length limits of columns and lost connections are not modelled.
\<close>

definition TasksRepository_update ::
  "timestamp \<Rightarrow> whereClause \<Rightarrow> TasksUpdateFields \<Rightarrow> (DbTask option, world) op" where
  "TasksRepository_update now w f s =
     (if no_values f then (Inl (DatabaseException ''Failed to update one task''), s)
      else if (\<exists>t \<in> set (tasksTable s). matches w t) \<and>
         (case uf_scheduleId f of None \<Rightarrow> False | Some sid \<Rightarrow> sid \<notin> set (schedulesTable s))
      then (Inl (DatabaseException ''Failed to update one task''), s)
      else
        (let rows = map (\<lambda>t. if matches w t then set_fields now f t else t) (tasksTable s)
         in (Inr (find (matches w) rows), s\<lparr>tasksTable := rows\<rparr>)))"

record TaskCreateDto =
  c_name :: string
  c_scheduleId :: string
  c_userId :: string
  c_description :: "string option"
  c_status :: "TaskStatus option"
  c_dueTo :: "timestamp option"
  c_repeat :: "string option"
  c_priority :: "int option"
  c_fixed :: "bool option"
  c_startTime :: "string option"
  c_endTime :: "string option"

definition TasksRepository_create :: "timestamp \<Rightarrow> string \<Rightarrow> TaskCreateDto \<Rightarrow> (DbTask, world) op" where
  "TasksRepository_create now newId options s =
     (if newId \<in> t_id ` set (tasksTable s) \<or> c_scheduleId options \<notin> set (schedulesTable s)
      then (Inl (DatabaseException ''Failed to create task''), s)
      else
        (let row = \<lparr>t_id = newId, t_name = c_name options,
                    t_description = c_description options,
                    t_status = (case c_status options of None \<Rightarrow> NOT_STARTED | Some st \<Rightarrow> st),
                    t_dueTo = c_dueTo options, t_repeat = c_repeat options,
                    t_userId = c_userId options,
                    t_priority = (case c_priority options of None \<Rightarrow> 0 | Some p \<Rightarrow> p),
                    t_fixed = (case c_fixed options of None \<Rightarrow> False | Some b \<Rightarrow> b),
                    t_startTime = c_startTime options, t_endTime = c_endTime options,
                    t_createdAt = now, t_updatedAt = now,
                    t_scheduleId = c_scheduleId options\<rparr>
         in (Inr row, s\<lparr>tasksTable := tasksTable s @ [row]\<rparr>)))"

definition TasksRepository_remove :: "whereClause \<Rightarrow> (DbTask option, world) op" where
  "TasksRepository_remove w s =
     (if (\<exists>t \<in> set (tasksTable s). matches w t) \<and>
         (\<exists>j \<in> set (jobsTable s). dbj_taskId j = w_id w)
      then (Inl (DatabaseException ''Failed to remove one task''), s)
      else (Inr (find (matches w) (tasksTable s)),
            s\<lparr>tasksTable := filter (\<lambda>t. \<not> matches w t) (tasksTable s)\<rparr>))"

subsection \<open>SchedulesRepository.findOne (schedules/src/schedules/schedules.repository.ts)\<close>

definition SchedulesRepository_findOne :: "string \<Rightarrow> (string option, world) op" where
  "SchedulesRepository_findOne i s = (Inr (find (\<lambda>x. x = i) (schedulesTable s)), s)"

subsection \<open>JobsRepository, the Job Store (schedules/src/jobs/jobs.repository.ts)\<close>

definition JobsRepository_findOne :: "string \<Rightarrow> (DbJob option, world) op" where
  "JobsRepository_findOne i s = (Inr (find (\<lambda>j. dbj_id j = i) (jobsTable s)), s)"

definition JobsRepository_findByTaskId :: "string \<Rightarrow> (DbJob list, world) op" where
  "JobsRepository_findByTaskId taskId s =
     (Inr (filter (\<lambda>j. dbj_taskId j = taskId) (jobsTable s)), s)"

text \<open>
  The insert fails on a job id that is already in the table (primary key) and on a
  task id that is in no task row (foreign key).
\<close>

definition JobsRepository_save :: "string \<Rightarrow> JobType \<Rightarrow> string \<Rightarrow> (DbJob, world) op" where
  "JobsRepository_save i ty taskId s =
     (if i \<in> dbj_id ` set (jobsTable s) \<or> taskId \<notin> t_id ` set (tasksTable s)
      then (Inl (DatabaseException ''Failed to save job''), s)
      else
        (let row = \<lparr>dbj_id = i, dbj_type = ty, dbj_taskId = taskId\<rparr>
         in (Inr row, s\<lparr>jobsTable := jobsTable s @ [row]\<rparr>)))"

definition JobsRepository_remove :: "string \<Rightarrow> (bool, world) op" where
  "JobsRepository_remove i s =
     (Inr (\<exists>j \<in> set (jobsTable s). dbj_id j = i),
      s\<lparr>jobsTable := filter (\<lambda>j. dbj_id j \<noteq> i) (jobsTable s)\<rparr>)"

section \<open>Job Service facade: JobsService of the schedules service\<close>

text \<open>
  The facade (second class of \<^verbatim>\<open>schedules/src/jobs/jobs.repository.ts\<close>) calls the
  engine through the gRPC client and keeps the Job Store. \<open>onEngine\<close> is the remote
  call: it runs the engine operation on the engine's state; an exception of the engine
  reaches the caller as an error.
\<close>

definition onEngine :: "('a, engine) op \<Rightarrow> ('a, world) op" where
  "onEngine m s = (case m (jobsEngine s) of (r, e') \<Rightarrow> (r, s\<lparr>jobsEngine := e'\<rparr>))"

definition JobsService_scheduleSingle ::
  "timestamp \<Rightarrow> string \<Rightarrow> JobScheduleSingleDto \<Rightarrow> string \<Rightarrow> (SingleJob, world) op" where
  "JobsService_scheduleSingle now uuid payload taskId =
     andThen (onEngine (scheduleSingle now uuid payload)) (\<lambda>singleJob.
     andThen (JobsRepository_save (sj_id singleJob) SINGLE taskId) (\<lambda>_.
     ret singleJob))"

definition JobsService_scheduleCron ::
  "(string \<Rightarrow> string option) \<Rightarrow> string \<Rightarrow> JobScheduleCronDto \<Rightarrow> string \<Rightarrow> (CronJob, world) op" where
  "JobsService_scheduleCron cronError uuid payload taskId =
     andThen (onEngine (scheduleCron cronError uuid payload)) (\<lambda>cronJob.
     andThen (JobsRepository_save (cj_id cronJob) CRON taskId) (\<lambda>_.
     ret cronJob))"

definition JobsService_rescheduleSingle ::
  "timestamp \<Rightarrow> JobRescheduleSingleDto \<Rightarrow> (SingleJob, world) op" where
  "JobsService_rescheduleSingle now payload =
     andThen (onEngine (rescheduleSingle now payload)) (\<lambda>singleJob. ret singleJob)"

definition JobsService_rescheduleCron ::
  "(string \<Rightarrow> string option) \<Rightarrow> JobRescheduleCronDto \<Rightarrow> (CronJob, world) op" where
  "JobsService_rescheduleCron cronError payload =
     andThen (onEngine (rescheduleCron cronError payload)) (\<lambda>cronJob. ret cronJob)"

definition JobsService_unscheduleSingle :: "string \<Rightarrow> (SingleJob, world) op" where
  "JobsService_unscheduleSingle i =
     andThen (onEngine (unscheduleSingle i)) (\<lambda>singleJob.
     andThen (JobsRepository_remove (sj_id singleJob)) (\<lambda>_.
     ret singleJob))"

definition JobsService_unscheduleCron :: "string \<Rightarrow> (CronJob, world) op" where
  "JobsService_unscheduleCron i =
     andThen (onEngine (unscheduleCron i)) (\<lambda>cronJob.
     andThen (JobsRepository_remove (cj_id cronJob)) (\<lambda>_.
     ret cronJob))"

definition JobsService_findByTaskId :: "string \<Rightarrow> (DbJob list, world) op" where
  "JobsService_findByTaskId taskId = JobsRepository_findByTaskId taskId"

section \<open>Task Lifecycle Controller: TasksService\<close>

text \<open>
  \<^verbatim>\<open>TasksService\<close> is the second class of
  \<^verbatim>\<open>schedules/src/tasks/entities/task.entity.ts\<close>. The names of the broker tasks are
  those of \<^verbatim>\<open>common/enums/broker-task.enum.ts\<close>.
\<close>

definition SCHEDULE_SINGLE_JOB :: string where
  "SCHEDULE_SINGLE_JOB = ''jobs.schedule.single''"

definition SCHEDULE_CRON_JOB :: string where
  "SCHEDULE_CRON_JOB = ''jobs.schedule.cron''"

text \<open>
  Modelled from the spec: the values of the enum \<^verbatim>\<open>TaskEvent\<close> (\<^verbatim>\<open>tasks/enums\<close>) are
  not among the sources. The spec names the two topics \<^verbatim>\<open>TASK_DUE\<close> and
  \<^verbatim>\<open>TASK_REPEATED\<close>.
\<close>

definition TaskEvent_DUE :: string where
  "TaskEvent_DUE = ''TASK_DUE''"

definition TaskEvent_REPEATED :: string where
  "TaskEvent_REPEATED = ''TASK_REPEATED''"

record TaskFindOneDto =
  fo_where :: whereClause

text \<open>
  The patch of \<open>update\<close>. Every access in the source is \<^verbatim>\<open>fields?.x\<close>, so a missing
  \<^verbatim>\<open>fields\<close> object is the record with every field undefined. \<open>update\<close> reads these
  six fields only; \<^verbatim>\<open>priority\<close>, \<^verbatim>\<open>fixed\<close>, \<^verbatim>\<open>startTime\<close> and \<^verbatim>\<open>endTime\<close> of the
  DTO are never read.
\<close>

record TaskUpdateFields =
  f_name :: "string option"
  f_description :: "string patch"
  f_dueTo :: "timestamp patch"
  f_repeat :: "string patch"
  f_status :: "TaskStatus option"
  f_scheduleId :: "string option"

record TaskUpdateDto =
  u_where :: whereClause
  u_fields :: TaskUpdateFields

record TaskRemoveDto =
  r_where :: whereClause

definition TasksService_findOne :: "TaskFindOneDto \<Rightarrow> (Task, world) op" where
  "TasksService_findOne findOneDto =
     (let i = w_id (fo_where findOneDto); userId = w_userId (fo_where findOneDto)
      in andThen (TasksRepository_findOne \<lparr>w_id = i, w_userId = userId\<rparr>) (\<lambda>dbTask.
         case dbTask of
           None \<Rightarrow> throw (TaskNotFoundException i)
         | Some t \<Rightarrow> ret (dbToDomain t)))"

definition TasksService_create :: "env \<Rightarrow> TaskCreateDto \<Rightarrow> (Task, world) op" where
  "TasksService_create env createDto =
     andThen (SchedulesRepository_findOne (c_scheduleId createDto)) (\<lambda>dbSchedule.
     case dbSchedule of
       None \<Rightarrow> throw (ScheduleNotFoundException (c_scheduleId createDto))
     | Some _ \<Rightarrow>
     andThen (TasksRepository_create (env_now env) (env_taskUuid env) createDto) (\<lambda>dbTask.
     andThen (case t_dueTo dbTask of
                None \<Rightarrow> ret ()
              | Some dueTo \<Rightarrow>
                  andThen (JobsService_scheduleSingle (env_now env) (env_singleUuid env)
                             \<lparr>ss_name = SCHEDULE_SINGLE_JOB, ss_executionDate = dueTo,
                              ss_ackEventName = TaskEvent_DUE,
                              ss_payload = [(''taskId'', t_id dbTask), (''taskName'', t_name dbTask),
                                            (''userId'', t_userId dbTask)]\<rparr>
                             (t_id dbTask)) (\<lambda>_. ret ())) (\<lambda>_.
     andThen (case t_repeat dbTask of
                None \<Rightarrow> ret ()
              | Some repeat \<Rightarrow>
                  if repeat \<noteq> [] then
                    andThen (JobsService_scheduleCron (env_cronError env) (env_cronUuid env)
                               \<lparr>sc_name = SCHEDULE_CRON_JOB, sc_cron = repeat,
                                sc_ackEventName = TaskEvent_REPEATED,
                                sc_payload = [(''taskId'', t_id dbTask), (''taskName'', t_name dbTask),
                                              (''userId'', t_userId dbTask)]\<rparr>
                               (t_id dbTask)) (\<lambda>_. ret ())
                  else ret ()) (\<lambda>_.
     ret (dbToDomain dbTask)))))"

text \<open>
  The four reconciliation blocks of \<open>update\<close>, in the order of the source; \<open>jobs\<close> is
  the result of \<open>findByTaskId\<close> read once before the first block.
  Lines 179 to 204: \<^verbatim>\<open>if (fields?.dueTo)\<close>.
\<close>

definition update_dueTo_value ::
  "env \<Rightarrow> TaskUpdateFields \<Rightarrow> string \<Rightarrow> DbTask \<Rightarrow> DbJob list \<Rightarrow> (unit, world) op" where
  "update_dueTo_value env flds i updatedTask jobs =
     (case f_dueTo flds of
        Value dueTo \<Rightarrow>
          (case find (\<lambda>job. dbj_type job = SINGLE) jobs of
             None \<Rightarrow>
               andThen (JobsService_scheduleSingle (env_now env) (env_singleUuid env)
                          \<lparr>ss_name = SCHEDULE_SINGLE_JOB, ss_executionDate = dueTo,
                           ss_ackEventName = TaskEvent_DUE,
                           ss_payload = [(''userId'', t_userId updatedTask), (''taskId'', i),
                                         (''taskName'', t_name updatedTask)]\<rparr>
                          i) (\<lambda>_. ret ())
           | Some job \<Rightarrow>
               andThen (JobsService_rescheduleSingle (env_now env)
                          \<lparr>rs_id = dbj_id job, rs_executionDate = dueTo\<rparr>) (\<lambda>_. ret ()))
      | _ \<Rightarrow> ret ())"

text \<open>Lines 206 to 216: \<^verbatim>\<open>if (fields?.dueTo === null)\<close>.\<close>

definition update_dueTo_null :: "TaskUpdateFields \<Rightarrow> DbJob list \<Rightarrow> (unit, world) op" where
  "update_dueTo_null flds jobs =
     (if f_dueTo flds = Null then
        (case find (\<lambda>job. dbj_type job = SINGLE) jobs of
           Some job \<Rightarrow> andThen (JobsService_unscheduleSingle (dbj_id job)) (\<lambda>_. ret ())
         | None \<Rightarrow> ret ())
      else ret ())"

text \<open>Lines 218 to 243: \<^verbatim>\<open>if (fields?.repeat)\<close>.\<close>

definition update_repeat_value ::
  "env \<Rightarrow> TaskUpdateFields \<Rightarrow> string \<Rightarrow> DbTask \<Rightarrow> DbJob list \<Rightarrow> (unit, world) op" where
  "update_repeat_value env flds i updatedTask jobs =
     (case f_repeat flds of
        Value repeat \<Rightarrow>
          (if repeat \<noteq> [] then
             (case find (\<lambda>job. dbj_type job = CRON) jobs of
                None \<Rightarrow>
                  andThen (JobsService_scheduleCron (env_cronError env) (env_cronUuid env)
                             \<lparr>sc_name = SCHEDULE_CRON_JOB, sc_cron = repeat,
                              sc_ackEventName = TaskEvent_REPEATED,
                              sc_payload = [(''userId'', t_userId updatedTask), (''taskId'', i),
                                            (''taskName'', t_name updatedTask)]\<rparr>
                             i) (\<lambda>_. ret ())
              | Some job \<Rightarrow>
                  andThen (JobsService_rescheduleCron (env_cronError env)
                             \<lparr>rc_id = dbj_id job, rc_cron = repeat\<rparr>) (\<lambda>_. ret ()))
           else ret ())
      | _ \<Rightarrow> ret ())"

text \<open>Lines 245 to 253: \<^verbatim>\<open>if (fields?.repeat === null)\<close>.\<close>

definition update_repeat_null :: "TaskUpdateFields \<Rightarrow> DbJob list \<Rightarrow> (unit, world) op" where
  "update_repeat_null flds jobs =
     (if f_repeat flds = Null then
        (case find (\<lambda>job. dbj_type job = CRON) jobs of
           Some job \<Rightarrow> andThen (JobsService_unscheduleCron (dbj_id job)) (\<lambda>_. ret ())
         | None \<Rightarrow> ret ())
      else ret ())"

text \<open>
  \<open>update\<close>. The row update passes \<^verbatim>\<open>fields?.dueTo ? new Date(fields?.dueTo) : undefined\<close>
  for the due date: a value is written, \<^verbatim>\<open>null\<close> and \<^verbatim>\<open>undefined\<close> both become
  \<^verbatim>\<open>undefined\<close>. \<^verbatim>\<open>description\<close> and \<^verbatim>\<open>repeat\<close> are passed as they are.
\<close>

definition TasksService_update :: "env \<Rightarrow> TaskUpdateDto \<Rightarrow> (Task, world) op" where
  "TasksService_update env updateDto =
     (let i = w_id (u_where updateDto); userId = w_userId (u_where updateDto);
          flds = u_fields updateDto
      in
      andThen (case f_scheduleId flds of
                 None \<Rightarrow> ret ()
               | Some scheduleId \<Rightarrow>
                   if scheduleId \<noteq> [] then
                     andThen (SchedulesRepository_findOne scheduleId) (\<lambda>dbSchedule.
                     case dbSchedule of
                       None \<Rightarrow> throw (ScheduleNotFoundException scheduleId)
                     | Some _ \<Rightarrow> ret ())
                   else ret ()) (\<lambda>_.
      andThen (TasksRepository_update (env_now env) \<lparr>w_id = i, w_userId = userId\<rparr>
                 \<lparr>uf_description = f_description flds,
                  uf_dueTo = (case f_dueTo flds of Value d \<Rightarrow> Value d | _ \<Rightarrow> Undefined),
                  uf_name = f_name flds,
                  uf_repeat = f_repeat flds,
                  uf_scheduleId = f_scheduleId flds,
                  uf_status = f_status flds\<rparr>) (\<lambda>updated.
      case updated of
        None \<Rightarrow> throw (TaskNotFoundException i)
      | Some updatedTask \<Rightarrow>
      andThen (JobsService_findByTaskId i) (\<lambda>jobs.
      andThen (update_dueTo_value env flds i updatedTask jobs) (\<lambda>_.
      andThen (update_dueTo_null flds jobs) (\<lambda>_.
      andThen (update_repeat_value env flds i updatedTask jobs) (\<lambda>_.
      andThen (update_repeat_null flds jobs) (\<lambda>_.
      ret (dbToDomain updatedTask)))))))))"

definition TasksService_remove :: "TaskRemoveDto \<Rightarrow> (Task, world) op" where
  "TasksService_remove removeDto =
     (let i = w_id (r_where removeDto); userId = w_userId (r_where removeDto)
      in
      andThen (TasksRepository_findOne \<lparr>w_id = i, w_userId = userId\<rparr>) (\<lambda>found.
      case found of
        None \<Rightarrow> throw (TaskNotFoundException i)
      | Some task \<Rightarrow>
      andThen (JobsService_findByTaskId i) (\<lambda>jobs.
      andThen (if t_dueTo task \<noteq> None then
                 (case find (\<lambda>job. dbj_type job = SINGLE) jobs of
                    Some job \<Rightarrow> andThen (JobsService_unscheduleSingle (dbj_id job)) (\<lambda>_. ret ())
                  | None \<Rightarrow> ret ())
               else ret ()) (\<lambda>_.
      andThen (if truthy (t_repeat task) then
                 (case find (\<lambda>job. dbj_type job = CRON) jobs of
                    Some job \<Rightarrow> andThen (JobsService_unscheduleCron (dbj_id job)) (\<lambda>_. ret ())
                  | None \<Rightarrow> ret ())
               else ret ()) (\<lambda>_.
      andThen (TasksRepository_remove \<lparr>w_id = i, w_userId = userId\<rparr>) (\<lambda>_.
      ret (dbToDomain task)))))))"

section \<open>Task event handlers: TaskEventsController\<close>

text \<open>
  The controller (\<^verbatim>\<open>schedules/src/tasks/events.controller.ts\<close>) gets its two services
  through the constructor, so the handlers are functions of the services they call:
  \<open>findOne\<close> and \<open>update\<close> of the tasks service, \<open>publish\<close> of the events service and
  the logger's \<open>error\<close>. The body of the \<^verbatim>\<open>try\<close> runs until the first exception; the
  \<^verbatim>\<open>catch\<close> logs it and the handler returns.

  The two calls of the tasks service are awaited; the call of \<open>publish\<close> is not.
  So a call of \<open>publish\<close> has three outcomes: it returns (and what it returned, if
  a promise, is fulfilled), it throws before returning, or it returns a promise that
  is rejected later. Only an exception thrown before returning reaches the
  \<^verbatim>\<open>catch\<close>: the rejection of the promise that nobody awaits is seen by neither the
  \<^verbatim>\<open>try\<close> nor the logger. \<open>noAwait\<close> is the call without \<^verbatim>\<open>await\<close>.
\<close>

datatype publish_result = Returned | Threw error | Rejected error

definition noAwait :: "('s \<Rightarrow> publish_result \<times> 's) \<Rightarrow> (unit, 's) op" where
  "noAwait p s =
     (case p s of
        (Returned, s') \<Rightarrow> (Inr (), s')
      | (Threw err, s') \<Rightarrow> (Inl err, s')
      | (Rejected err, s') \<Rightarrow> (Inr (), s'))"

record TaskJobPayload =
  p_taskId :: string
  p_taskName :: string
  p_userId :: string

definition handleDue ::
  "(TaskFindOneDto \<Rightarrow> (Task, 's) op) \<Rightarrow> (TaskUpdateDto \<Rightarrow> (Task, 's) op) \<Rightarrow>
   (string \<Rightarrow> TaskEventPayload \<Rightarrow> 's \<Rightarrow> publish_result \<times> 's) \<Rightarrow>
   (string \<Rightarrow> error \<Rightarrow> 's \<Rightarrow> 's) \<Rightarrow>
   TaskJobPayload \<Rightarrow> (unit, 's) op" where
  "handleDue findOne update publish logger_error payload s =
     (case andThen (findOne \<lparr>fo_where = \<lparr>w_id = p_taskId payload, w_userId = None\<rparr>\<rparr>) (\<lambda>task.
           andThen (if t_status task = NOT_STARTED \<or> t_status task = IN_PROGRESS then
                      andThen (update \<lparr>u_where = \<lparr>w_id = t_id task, w_userId = Some (t_userId task)\<rparr>,
                                       u_fields = \<lparr>f_name = None, f_description = Undefined,
                                                   f_dueTo = Undefined, f_repeat = Undefined,
                                                   f_status = Some FAILED, f_scheduleId = None\<rparr>\<rparr>)
                        (\<lambda>_. ret ())
                    else ret ()) (\<lambda>_.
           noAwait (publish TaskEvent_DUE
                      \<lparr>ev_task_id = t_id task, ev_task_userId = t_userId task\<rparr>))) s
      of
        (Inl err, s') \<Rightarrow>
          (Inr (), logger_error (''Failed to handle '' @ TaskEvent_DUE @ '' event, details: '') err s')
      | (Inr _, s') \<Rightarrow> (Inr (), s'))"

definition handleRepetition ::
  "(TaskFindOneDto \<Rightarrow> (Task, 's) op) \<Rightarrow> (TaskUpdateDto \<Rightarrow> (Task, 's) op) \<Rightarrow>
   (string \<Rightarrow> TaskEventPayload \<Rightarrow> 's \<Rightarrow> publish_result \<times> 's) \<Rightarrow>
   (string \<Rightarrow> error \<Rightarrow> 's \<Rightarrow> 's) \<Rightarrow>
   TaskJobPayload \<Rightarrow> (unit, 's) op" where
  "handleRepetition findOne update publish logger_error payload s =
     (case andThen (findOne \<lparr>fo_where = \<lparr>w_id = p_taskId payload, w_userId = None\<rparr>\<rparr>) (\<lambda>task.
           andThen (update \<lparr>u_where = \<lparr>w_id = t_id task, w_userId = Some (t_userId task)\<rparr>,
                            u_fields = \<lparr>f_name = None, f_description = Undefined,
                                        f_dueTo = Undefined, f_repeat = Undefined,
                                        f_status = Some NOT_STARTED, f_scheduleId = None\<rparr>\<rparr>)
             (\<lambda>_.
           noAwait (publish TaskEvent_REPEATED
                      \<lparr>ev_task_id = t_id task, ev_task_userId = t_userId task\<rparr>))) s
      of
        (Inl err, s') \<Rightarrow>
          (Inr (), logger_error (''Failed to handle '' @ TaskEvent_REPEATED @ '' event, details: '') err s')
      | (Inr _, s') \<Rightarrow> (Inr (), s'))"

text \<open>
  Modelled from the spec: \<^verbatim>\<open>EventsService.publish\<close> (\<^verbatim>\<open>schedules/src/events/events.service.ts\<close>)
  is not among the sources. The spec: \<^verbatim>\<open>publish(eventName, payload)\<close> is fire-and-forget
  from the publisher's perspective; failures are logged, never thrown back into the
  caller. The event is appended to the events published on the bus and the call
  returns.
\<close>

definition EventsService_publish ::
  "string \<Rightarrow> TaskEventPayload \<Rightarrow> world \<Rightarrow> publish_result \<times> world" where
  "EventsService_publish eventName payload s =
     (Returned, s\<lparr>published := published s @ [(eventName, payload)]\<rparr>)"

definition Logger_error :: "string \<Rightarrow> error \<Rightarrow> world \<Rightarrow> world" where
  "Logger_error message err s = s\<lparr>errorLog := errorLog s @ [(message, err)]\<rparr>"

text \<open>The controller of the running service, with the services of this file.\<close>

definition TaskEventsController_handleDue :: "env \<Rightarrow> TaskJobPayload \<Rightarrow> (unit, world) op" where
  "TaskEventsController_handleDue env =
     handleDue TasksService_findOne (TasksService_update env) EventsService_publish Logger_error"

definition TaskEventsController_handleRepetition :: "env \<Rightarrow> TaskJobPayload \<Rightarrow> (unit, world) op" where
  "TaskEventsController_handleRepetition env =
     handleRepetition TasksService_findOne (TasksService_update env) EventsService_publish
       Logger_error"

section \<open>Sequences of lifecycle operations and the binding invariant\<close>

datatype lifecycle_op =
    Create env TaskCreateDto
  | Update env TaskUpdateDto
  | Remove TaskRemoveDto

fun step :: "world \<Rightarrow> lifecycle_op \<Rightarrow> world" where
  "step s (Create env dto) = snd (TasksService_create env dto s)"
| "step s (Update env dto) = snd (TasksService_update env dto s)"
| "step s (Remove dto) = snd (TasksService_remove dto s)"

definition run :: "lifecycle_op list \<Rightarrow> world \<Rightarrow> world" where
  "run ops s = foldl step s ops"

text \<open>
  \<open>bindings ty T js\<close> counts the Job Store rows of type \<open>ty\<close> bound to task \<open>T\<close>.
  \<open>store_consistent\<close>: every row has at most one row of its type for its task, and
  its task id is the id of a task row (the foreign key of the table).
\<close>

definition bindings :: "JobType \<Rightarrow> string \<Rightarrow> DbJob list \<Rightarrow> nat" where
  "bindings ty T js = length (filter (\<lambda>j. dbj_type j = ty \<and> dbj_taskId j = T) js)"

definition store_consistent :: "world \<Rightarrow> bool" where
  "store_consistent s =
     ((\<forall>j \<in> set (jobsTable s). bindings (dbj_type j) (dbj_taskId j) (jobsTable s) \<le> 1) \<and>
      (\<forall>j \<in> set (jobsTable s). dbj_taskId j \<in> t_id ` set (tasksTable s)))"


text \<open>
  Two auxiliary notions for the proof of the invariant. While an operation works on
  the task \<open>T\<close>, the counts of the bindings of \<open>T\<close> are bounded by \<open>cS\<close> and \<open>cC\<close> and
  those of every other task by one.
\<close>

definition cap :: "string \<Rightarrow> nat \<Rightarrow> nat \<Rightarrow> JobType \<Rightarrow> string \<Rightarrow> nat" where
  "cap T cS cC ty T' = (if T' = T then (case ty of SINGLE \<Rightarrow> cS | CRON \<Rightarrow> cC) else 1)"

definition bounded :: "string \<Rightarrow> nat \<Rightarrow> nat \<Rightarrow> world \<Rightarrow> bool" where
  "bounded T cS cC s =
     ((\<forall>j \<in> set (jobsTable s). dbj_taskId j \<in> t_id ` set (tasksTable s)) \<and>
      (\<forall>ty T'. bindings ty T' (jobsTable s) \<le> cap T cS cC ty T'))"

text \<open>
  The effect on a row \<open>r\<close> of the status update the event handlers ask for: the rows
  with the id and the user id of the task \<open>t\<close> take the new status and the time of
  the update.
\<close>

definition set_status :: "TaskStatus \<Rightarrow> timestamp \<Rightarrow> DbTask \<Rightarrow> DbTask \<Rightarrow> DbTask" where
  "set_status st now t r =
     (if matches \<lparr>w_id = t_id t, w_userId = Some (t_userId t)\<rparr> r
      then r\<lparr>t_status := st, t_updatedAt := now\<rparr> else r)"

section \<open>An example state\<close>

text \<open>
  One task \<open>t1\<close> of user \<open>u\<close>, due at 5000, with its single job \<open>j1\<close> in the Job
  Store and in the engine's queue; the clock of the calls reads 2000 and the pattern
  parser rejects the pattern \<^verbatim>\<open>not a cron\<close>.
\<close>

definition example_task :: DbTask where
  "example_task =
     \<lparr>t_id = ''t1'', t_name = ''n'', t_description = None, t_status = NOT_STARTED,
      t_dueTo = Some 5000, t_repeat = None, t_userId = ''u'', t_priority = 0, t_fixed = False,
      t_startTime = None, t_endTime = None, t_createdAt = 0, t_updatedAt = 0,
      t_scheduleId = ''s1''\<rparr>"

definition example_world :: world where
  "example_world =
     \<lparr>tasksTable = [example_task], schedulesTable = [''s1''],
      jobsTable = [\<lparr>dbj_id = ''j1'', dbj_type = SINGLE, dbj_taskId = ''t1''\<rparr>],
      jobsEngine = \<lparr>queue = [\<lparr>job_name = ''jobs.schedule.single'', job_data = [],
                                job_opts = \<lparr>delay = 4000, jobId = ''j1''\<rparr>,
                                job_timestamp = 1000\<rparr>],
                    schedulers = []\<rparr>,
      published = [], errorLog = []\<rparr>"

definition example_cronError :: "string \<Rightarrow> string option" where
  "example_cronError pattern =
     (if pattern = ''not a cron'' then Some ''invalid pattern'' else None)"

definition example_env :: env where
  "example_env =
     \<lparr>env_now = 2000, env_taskUuid = ''t9'', env_singleUuid = ''j8'', env_cronUuid = ''j9'',
      env_cronError = example_cronError\<rparr>"





section \<open>Properties of the Job Execution Engine\<close>

subsection \<open>Lookups in the queue and in the scheduler table\<close>

lemma find_filter_neq:
  "find (\<lambda>j. f j = i) (filter (\<lambda>k. f k \<noteq> i') xs) =
     (if i = i' then None else find (\<lambda>j. f j = i) xs)"
  by (induction xs) auto

lemma find_snoc:
  "find P (xs @ [y]) =
     (case find P xs of None \<Rightarrow> (if P y then Some y else None) | Some x \<Rightarrow> Some x)"
  by (induction xs) auto


lemma getJob_SomeD: "getJob i e = Some j \<Longrightarrow> job_id j = i"
  by (auto simp: getJob_def find_Some_iff)





subsection \<open>Rescheduling a single job\<close>

text \<open>
  Claim C3. \<open>rescheduleSingle\<close> looks the job up first and tests the date second.
  With no job under the id it throws the job exception whose cause says that the job
  does not exist; with a job and an execution date that is not after the current time
  it throws the job exception whose cause says that the date is in the past; in both
  cases the engine state is returned as it was. Otherwise it succeeds: the job stored
  under the id afterwards has the name, the data and the options of the old one with
  only the delay replaced (and the time of insertion), the reply carries the same id,
  every other job is found as before and the schedulers are untouched.
\<close>

theorem rescheduleSingle_contract:
  "(getJob (rs_id dto) e = None \<longrightarrow>
      rescheduleSingle now dto e =
        (Inl (JobException ''error while rescheduling single job''
                ''Cannot reschedule single job, because it does not exist'' (rs_id dto)), e))
   \<and> (\<forall>j. getJob (rs_id dto) e = Some j \<and> rs_executionDate dto \<le> now \<longrightarrow>
      rescheduleSingle now dto e =
        (Inl (JobException ''error while rescheduling single job''
                ''Cannot reschedule single job with date in the past'' (rs_id dto)), e))
   \<and> (\<forall>j. getJob (rs_id dto) e = Some j \<and> now < rs_executionDate dto \<longrightarrow>
      (\<exists>e'. rescheduleSingle now dto e =
              (Inr \<lparr>sj_id = or_else (rs_id dto) ''no-id'', sj_name = job_name j,
                    sj_executionDate = rs_executionDate dto, sj_type = SINGLE\<rparr>, e')
         \<and> getJob (rs_id dto) e' =
              Some (j\<lparr>job_opts := (job_opts j)\<lparr>delay := rs_executionDate dto - now\<rparr>,
                      job_timestamp := now\<rparr>)
         \<and> (\<forall>i. i \<noteq> rs_id dto \<longrightarrow> getJob i e' = getJob i e)
         \<and> schedulers e' = schedulers e))"
proof (intro conjI allI impI)
  assume "getJob (rs_id dto) e = None"
  then show "rescheduleSingle now dto e =
        (Inl (JobException ''error while rescheduling single job''
                ''Cannot reschedule single job, because it does not exist'' (rs_id dto)), e)"
    by (simp add: rescheduleSingle_def)
next
  fix j assume "getJob (rs_id dto) e = Some j \<and> rs_executionDate dto \<le> now"
  then show "rescheduleSingle now dto e =
        (Inl (JobException ''error while rescheduling single job''
                ''Cannot reschedule single job with date in the past'' (rs_id dto)), e)"
    by (simp add: rescheduleSingle_def)
next
  fix j assume a: "getJob (rs_id dto) e = Some j \<and> now < rs_executionDate dto"
  then have i: "job_id j = rs_id dto" using getJob_SomeD by blast
  let ?j' = "j\<lparr>job_opts := (job_opts j)\<lparr>delay := rs_executionDate dto - now\<rparr>,
                job_timestamp := now\<rparr>"
  let ?e' = "e\<lparr>queue := filter (\<lambda>k. job_id k \<noteq> rs_id dto) (queue e) @ [?j']\<rparr>"
  have i': "job_id ?j' = rs_id dto" using i by (simp add: job_id_def)
  have r: "rescheduleSingle now dto e =
              (Inr \<lparr>sj_id = or_else (rs_id dto) ''no-id'', sj_name = job_name j,
                    sj_executionDate = rs_executionDate dto, sj_type = SINGLE\<rparr>, ?e')"
    using a i by (simp add: rescheduleSingle_def queue_add_def job_remove_def getJob_def
        find_filter_neq job_id_def Let_def)
  have g: "getJob (rs_id dto) ?e' = Some ?j'"
    using i' by (simp add: getJob_def find_snoc find_filter_neq)
  have o: "\<forall>i. i \<noteq> rs_id dto \<longrightarrow> getJob i ?e' = getJob i e"
    using i' by (auto simp: getJob_def find_snoc find_filter_neq split: option.splits)
  show "\<exists>e'. rescheduleSingle now dto e =
              (Inr \<lparr>sj_id = or_else (rs_id dto) ''no-id'', sj_name = job_name j,
                    sj_executionDate = rs_executionDate dto, sj_type = SINGLE\<rparr>, e')
         \<and> getJob (rs_id dto) e' = Some ?j'
         \<and> (\<forall>i. i \<noteq> rs_id dto \<longrightarrow> getJob i e' = getJob i e)
         \<and> schedulers e' = schedulers e"
    using r g o by (intro exI[of _ ?e']) simp
qed

text \<open>
  The three cases at concrete inputs: an empty queue, then a queue holding the job
  \<open>u1\<close> at time 1000 with a date in the past and with a date in the future.
\<close>

theorem rescheduleSingle_contract_witness:
  "rescheduleSingle 1000 \<lparr>rs_id = ''u1'', rs_executionDate = 5000\<rparr> \<lparr>queue = [], schedulers = []\<rparr> =
     (Inl (JobException ''error while rescheduling single job''
             ''Cannot reschedule single job, because it does not exist'' ''u1''),
      \<lparr>queue = [], schedulers = []\<rparr>)
   \<and> rescheduleSingle 1000 \<lparr>rs_id = ''u1'', rs_executionDate = 1000\<rparr>
        \<lparr>queue = [\<lparr>job_name = ''n'', job_data = [(''taskId'', ''t1'')],
                    job_opts = \<lparr>delay = 50, jobId = ''u1''\<rparr>, job_timestamp = 900\<rparr>],
         schedulers = []\<rparr> =
     (Inl (JobException ''error while rescheduling single job''
             ''Cannot reschedule single job with date in the past'' ''u1''),
      \<lparr>queue = [\<lparr>job_name = ''n'', job_data = [(''taskId'', ''t1'')],
                  job_opts = \<lparr>delay = 50, jobId = ''u1''\<rparr>, job_timestamp = 900\<rparr>],
       schedulers = []\<rparr>)
   \<and> (\<exists>e'. rescheduleSingle 1000 \<lparr>rs_id = ''u1'', rs_executionDate = 5000\<rparr>
              \<lparr>queue = [\<lparr>job_name = ''n'', job_data = [(''taskId'', ''t1'')],
                          job_opts = \<lparr>delay = 50, jobId = ''u1''\<rparr>, job_timestamp = 900\<rparr>],
               schedulers = []\<rparr> =
              (Inr \<lparr>sj_id = ''u1'', sj_name = ''n'', sj_executionDate = 5000,
                    sj_type = SINGLE\<rparr>, e')
         \<and> getJob ''u1'' e' =
              Some \<lparr>job_name = ''n'', job_data = [(''taskId'', ''t1'')],
                    job_opts = \<lparr>delay = 4000, jobId = ''u1''\<rparr>, job_timestamp = 1000\<rparr>)"
proof -
  let ?j = "\<lparr>job_name = ''n'', job_data = [(''taskId'', ''t1'')],
             job_opts = \<lparr>delay = 50, jobId = ''u1''\<rparr>, job_timestamp = 900\<rparr>"
  let ?e = "\<lparr>queue = [?j], schedulers = []\<rparr>"
  have g0: "getJob ''u1'' \<lparr>queue = [], schedulers = []\<rparr> = None"
    by (simp add: getJob_def)
  have g1: "getJob ''u1'' ?e = Some ?j"
    by (simp add: getJob_def job_id_def)
  have a: "rescheduleSingle 1000 \<lparr>rs_id = ''u1'', rs_executionDate = 5000\<rparr>
             \<lparr>queue = [], schedulers = []\<rparr> =
           (Inl (JobException ''error while rescheduling single job''
                   ''Cannot reschedule single job, because it does not exist'' ''u1''),
            \<lparr>queue = [], schedulers = []\<rparr>)"
    using rescheduleSingle_contract
      [of "\<lparr>rs_id = ''u1'', rs_executionDate = 5000\<rparr>" "\<lparr>queue = [], schedulers = []\<rparr>" 1000] g0
    by simp
  have b: "rescheduleSingle 1000 \<lparr>rs_id = ''u1'', rs_executionDate = 1000\<rparr> ?e =
           (Inl (JobException ''error while rescheduling single job''
                   ''Cannot reschedule single job with date in the past'' ''u1''), ?e)"
    using rescheduleSingle_contract [of "\<lparr>rs_id = ''u1'', rs_executionDate = 1000\<rparr>" ?e 1000] g1
    by simp
  have c: "\<exists>e'. rescheduleSingle 1000 \<lparr>rs_id = ''u1'', rs_executionDate = 5000\<rparr> ?e =
              (Inr \<lparr>sj_id = ''u1'', sj_name = ''n'', sj_executionDate = 5000,
                    sj_type = SINGLE\<rparr>, e')
         \<and> getJob ''u1'' e' =
              Some \<lparr>job_name = ''n'', job_data = [(''taskId'', ''t1'')],
                    job_opts = \<lparr>delay = 4000, jobId = ''u1''\<rparr>, job_timestamp = 1000\<rparr>"
    using rescheduleSingle_contract [of "\<lparr>rs_id = ''u1'', rs_executionDate = 5000\<rparr>" ?e 1000] g1
    by (auto simp: or_else_def)
  show ?thesis using a b c by blast
qed

subsection \<open>Scheduling a single job\<close>

text \<open>
  Claim C4. The claim asks \<open>scheduleSingle\<close> to fail when the execution date is not
  after the current time. The code computes the delay and adds the job whatever its
  sign: at time 1000, a request for the instant 0 returns a job and leaves it in the
  queue with the delay \<open>-1000\<close>. The guard that \<open>rescheduleSingle\<close> has is missing here.
\<close>

theorem scheduleSingle_past_date_enqueues:
  "scheduleSingle 1000 ''u1''
     \<lparr>ss_name = ''jobs.schedule.single'', ss_executionDate = 0, ss_ackEventName = ''TASK_DUE'',
      ss_payload = [(''taskId'', ''t1'')]\<rparr> \<lparr>queue = [], schedulers = []\<rparr>
   = (Inr \<lparr>sj_id = ''u1'', sj_name = ''jobs.schedule.single'', sj_executionDate = 0,
           sj_type = SINGLE\<rparr>,
      \<lparr>queue = [\<lparr>job_name = ''jobs.schedule.single'',
                  job_data = [(''taskId'', ''t1''), (''ackEventName'', ''TASK_DUE'')],
                  job_opts = \<lparr>delay = - 1000, jobId = ''u1''\<rparr>, job_timestamp = 1000\<rparr>],
       schedulers = []\<rparr>)"
  by (simp add: scheduleSingle_def queue_add_def getJob_def job_id_def or_else_def Let_def)

subsection \<open>Scheduling a recurring job\<close>




section \<open>Properties of the schedules service\<close>

subsection \<open>Unfolding the model\<close>

lemmas engine_defs = scheduleSingle_def scheduleCron_def rescheduleSingle_def rescheduleCron_def
  unscheduleSingle_def unscheduleCron_def getJob_def job_remove_def queue_add_def
  getJobScheduler_def upsertJobScheduler_def removeJobScheduler_def job_id_def or_else_def

lemmas repo_defs = TasksRepository_findOne_def TasksRepository_update_def
  TasksRepository_create_def TasksRepository_remove_def SchedulesRepository_findOne_def
  JobsRepository_findByTaskId_def JobsRepository_save_def JobsRepository_remove_def
  matches_def truthy_def set_fields_def set_nullable_def set_column_def no_values_def

lemmas facade_defs = onEngine_def JobsService_scheduleSingle_def JobsService_scheduleCron_def
  JobsService_rescheduleSingle_def JobsService_rescheduleCron_def
  JobsService_unscheduleSingle_def JobsService_unscheduleCron_def JobsService_findByTaskId_def

lemmas service_defs = TasksService_findOne_def TasksService_create_def TasksService_update_def
  TasksService_remove_def update_dueTo_value_def update_dueTo_null_def update_repeat_value_def
  update_repeat_null_def dbToDomain_def SCHEDULE_SINGLE_JOB_def SCHEDULE_CRON_JOB_def
  TaskEvent_DUE_def TaskEvent_REPEATED_def

lemmas monad_defs = ret_def throw_def andThen_def

subsection \<open>Sequencing and frames\<close>

lemma onEngine_frame:
  "jobsTable (snd (onEngine m s)) = jobsTable s"
  "tasksTable (snd (onEngine m s)) = tasksTable s"
  "schedulesTable (snd (onEngine m s)) = schedulesTable s"
  "published (snd (onEngine m s)) = published s"
  "errorLog (snd (onEngine m s)) = errorLog s"
  by (simp_all add: onEngine_def split: prod.splits)

lemma andThen_post:
  assumes "\<And>e s'. m s = (Inl e, s') \<Longrightarrow> Q s'"
    and "\<And>x s'. m s = (Inr x, s') \<Longrightarrow> Q (snd (f x s'))"
  shows "Q (snd (andThen m f s))"
  using assms by (auto simp: andThen_def split: prod.splits sum.splits)

lemma andThen_post2:
  assumes "Q (snd (m s))" and "\<And>x. Q (snd (f x (snd (m s))))"
  shows "Q (snd (andThen m f s))"
  using assms by (auto simp: andThen_def split: prod.splits sum.splits)

lemma andThen_Inr: "m s = (Inr x, s') \<Longrightarrow> andThen m f s = f x s'"
  by (simp add: andThen_def)


lemma andThen_ret_snd: "snd (andThen m (\<lambda>x. ret (g x)) s) = snd (m s)"
  by (auto simp: andThen_def ret_def split: prod.splits sum.splits)

lemma JobsService_reschedule_frame:
  "jobsTable (snd (JobsService_rescheduleSingle now p s)) = jobsTable s"
  "tasksTable (snd (JobsService_rescheduleSingle now p s)) = tasksTable s"
  "jobsTable (snd (JobsService_rescheduleCron ce q s)) = jobsTable s"
  "tasksTable (snd (JobsService_rescheduleCron ce q s)) = tasksTable s"
  by (simp_all add: JobsService_rescheduleSingle_def JobsService_rescheduleCron_def
      onEngine_frame andThen_ret_snd)

text \<open>Effect of the facade's schedule and unschedule operations on the two tables.\<close>

lemma JobsService_scheduleSingle_tables:
  "tasksTable (snd (JobsService_scheduleSingle now u p T s)) = tasksTable s"
  "jobsTable (snd (JobsService_scheduleSingle now u p T s)) = jobsTable s \<or>
   (\<exists>i. jobsTable (snd (JobsService_scheduleSingle now u p T s)) =
          jobsTable s @ [\<lparr>dbj_id = i, dbj_type = SINGLE, dbj_taskId = T\<rparr>] \<and>
        T \<in> t_id ` set (tasksTable s))"
  by (auto simp: JobsService_scheduleSingle_def andThen_def ret_def onEngine_def
      JobsRepository_save_def Let_def split: prod.splits sum.splits if_splits)

lemma JobsService_scheduleCron_tables:
  "tasksTable (snd (JobsService_scheduleCron ce u p T s)) = tasksTable s"
  "jobsTable (snd (JobsService_scheduleCron ce u p T s)) = jobsTable s \<or>
   (\<exists>i. jobsTable (snd (JobsService_scheduleCron ce u p T s)) =
          jobsTable s @ [\<lparr>dbj_id = i, dbj_type = CRON, dbj_taskId = T\<rparr>] \<and>
        T \<in> t_id ` set (tasksTable s))"
  by (auto simp: JobsService_scheduleCron_def andThen_def ret_def onEngine_def
      JobsRepository_save_def Let_def split: prod.splits sum.splits if_splits)

lemma unscheduleSingle_id:
  "unscheduleSingle i e = (Inr r, e') \<Longrightarrow> sj_id r = or_else i ''no-id''"
  by (auto simp: unscheduleSingle_def split: option.splits dest: getJob_SomeD)

lemma getJobScheduler_SomeD: "getJobScheduler i e = Some x \<Longrightarrow> sch_key x = i"
  by (auto simp: getJobScheduler_def find_Some_iff)

lemma unscheduleCron_id:
  "unscheduleCron i e = (Inr r, e') \<Longrightarrow> cj_id r = i"
  by (auto simp: unscheduleCron_def split: option.splits dest: getJobScheduler_SomeD)

lemma JobsService_unscheduleSingle_tables:
  "tasksTable (snd (JobsService_unscheduleSingle i s)) = tasksTable s"
  "jobsTable (snd (JobsService_unscheduleSingle i s)) = jobsTable s \<or>
   jobsTable (snd (JobsService_unscheduleSingle i s)) =
     filter (\<lambda>j. dbj_id j \<noteq> or_else i ''no-id'') (jobsTable s)"
  by (auto simp: JobsService_unscheduleSingle_def andThen_def ret_def onEngine_def
      JobsRepository_remove_def split: prod.splits sum.splits dest: unscheduleSingle_id)

lemma JobsService_unscheduleCron_tables:
  "tasksTable (snd (JobsService_unscheduleCron i s)) = tasksTable s"
  "jobsTable (snd (JobsService_unscheduleCron i s)) = jobsTable s \<or>
   jobsTable (snd (JobsService_unscheduleCron i s)) =
     filter (\<lambda>j. dbj_id j \<noteq> i) (jobsTable s)"
  by (auto simp: JobsService_unscheduleCron_def andThen_def ret_def onEngine_def
      JobsRepository_remove_def split: prod.splits sum.splits dest: unscheduleCron_id)

subsection \<open>Counting bindings\<close>

lemma bindings_zero_iff:
  "(bindings ty T js = 0) = (\<forall>j \<in> set js. \<not> (dbj_type j = ty \<and> dbj_taskId j = T))"
  by (auto simp: bindings_def filter_empty_conv)

lemma store_consistent_iff:
  "store_consistent s =
     ((\<forall>j \<in> set (jobsTable s). dbj_taskId j \<in> t_id ` set (tasksTable s)) \<and>
      (\<forall>ty T. bindings ty T (jobsTable s) \<le> 1))"
proof -
  have "(\<forall>j \<in> set js. bindings (dbj_type j) (dbj_taskId j) js \<le> 1) =
        (\<forall>ty T. bindings ty T js \<le> 1)" for js
  proof
    assume a: "\<forall>j \<in> set js. bindings (dbj_type j) (dbj_taskId j) js \<le> 1"
    show "\<forall>ty T. bindings ty T js \<le> 1"
    proof (intro allI)
      fix ty T
      show "bindings ty T js \<le> 1"
      proof (cases "bindings ty T js = 0")
        case True then show ?thesis by simp
      next
        case False
        then obtain j where "j \<in> set js" "dbj_type j = ty" "dbj_taskId j = T"
          by (auto simp: bindings_zero_iff)
        with a show ?thesis by auto
      qed
    qed
  qed auto
  then show ?thesis by (auto simp: store_consistent_def)
qed

lemma cap_1_1: "cap T (Suc 0) (Suc 0) ty T' = Suc 0"
  by (simp add: cap_def split: JobType.splits)

lemma cap_mono: "a \<le> a' \<Longrightarrow> b \<le> b' \<Longrightarrow> cap T a b ty T' \<le> cap T a' b' ty T'"
  by (simp add: cap_def split: JobType.splits)

lemma store_consistent_bounded: "store_consistent s = bounded T (Suc 0) (Suc 0) s"
  by (simp add: store_consistent_iff bounded_def cap_1_1)

lemma bounded_mono:
  assumes "bounded T a b s" "a \<le> a'" "b \<le> b'"
  shows "bounded T a' b' s"
proof -
  have "bindings ty T' (jobsTable s) \<le> cap T a' b' ty T'" for ty T'
    using assms cap_mono [of a a' b b' T ty T'] by (auto simp: bounded_def intro: order_trans)
  with assms(1) show ?thesis by (simp add: bounded_def)
qed

lemma bounded_consistent:
  assumes "bounded T a b s" "a \<le> Suc 0" "b \<le> Suc 0"
  shows "store_consistent s"
  using bounded_mono [OF assms] by (simp add: store_consistent_bounded [of s T])

lemma bindings_filter_le: "bindings ty T (filter P js) \<le> bindings ty T js"
  unfolding bindings_def by (induction js) auto

lemma bounded_filter:
  assumes "bounded T a b s" "t_id ` set (tasksTable s') = t_id ` set (tasksTable s)"
    "jobsTable s' = filter P (jobsTable s)"
  shows "bounded T a b s'"
proof -
  have "bindings ty T' (jobsTable s') \<le> cap T a b ty T'" for ty T'
    using assms(1,3) bindings_filter_le [of ty T' P "jobsTable s"]
    by (auto simp: bounded_def intro: order_trans)
  with assms show ?thesis by (auto simp: bounded_def)
qed

lemma bounded_same:
  assumes "bounded T a b s" "t_id ` set (tasksTable s') = t_id ` set (tasksTable s)"
    "jobsTable s' = jobsTable s"
  shows "bounded T a b s'"
  using assms unfolding bounded_def by auto

lemma bindings_snoc:
  "bindings ty T (js @ [j]) =
     bindings ty T js + (if dbj_type j = ty \<and> dbj_taskId j = T then 1 else 0)"
  by (simp add: bindings_def)

lemma bounded_add_single:
  assumes "bounded T 0 b s" "tasksTable s' = tasksTable s"
    "jobsTable s' = jobsTable s @ [\<lparr>dbj_id = i, dbj_type = SINGLE, dbj_taskId = T\<rparr>]"
    "T \<in> t_id ` set (tasksTable s)"
  shows "bounded T (Suc 0) b s'"
proof -
  have "bindings ty T' (jobsTable s') \<le> cap T (Suc 0) b ty T'" for ty T'
  proof -
    have "bindings ty T' (jobsTable s) \<le> cap T 0 b ty T'"
      using assms(1) by (simp add: bounded_def)
    then show ?thesis
      using assms(3) by (cases ty) (auto simp: bindings_snoc cap_def split: if_splits)
  qed
  with assms show ?thesis by (auto simp: bounded_def)
qed

lemma bounded_add_cron:
  assumes "bounded T a 0 s" "tasksTable s' = tasksTable s"
    "jobsTable s' = jobsTable s @ [\<lparr>dbj_id = i, dbj_type = CRON, dbj_taskId = T\<rparr>]"
    "T \<in> t_id ` set (tasksTable s)"
  shows "bounded T a (Suc 0) s'"
proof -
  have "bindings ty T' (jobsTable s') \<le> cap T a (Suc 0) ty T'" for ty T'
  proof -
    have "bindings ty T' (jobsTable s) \<le> cap T a 0 ty T'"
      using assms(1) by (simp add: bounded_def)
    then show ?thesis
      using assms(3) by (cases ty) (auto simp: bindings_snoc cap_def split: if_splits)
  qed
  with assms show ?thesis by (auto simp: bounded_def)
qed


subsection \<open>The facade's operations on a bounded store\<close>

lemma scheduleSingle_bounded:
  assumes "bounded T 0 b s"
  shows "bounded T (Suc 0) b (snd (JobsService_scheduleSingle now u p T s))"
proof -
  let ?s' = "snd (JobsService_scheduleSingle now u p T s)"
  have t: "tasksTable ?s' = tasksTable s"
    by (rule JobsService_scheduleSingle_tables)
  consider "jobsTable ?s' = jobsTable s"
    | i where "jobsTable ?s' = jobsTable s @ [\<lparr>dbj_id = i, dbj_type = SINGLE, dbj_taskId = T\<rparr>]"
        "T \<in> t_id ` set (tasksTable s)"
    using JobsService_scheduleSingle_tables(2) [of now u p T s] by blast
  then show ?thesis
  proof cases
    case 1
    have "bounded T 0 b ?s'" using assms t 1 by (auto intro: bounded_same)
    then show ?thesis by (rule bounded_mono) simp_all
  next
    case 2
    with assms t show ?thesis by (rule bounded_add_single)
  qed
qed

lemma scheduleCron_bounded:
  assumes "bounded T a 0 s"
  shows "bounded T a (Suc 0) (snd (JobsService_scheduleCron ce u p T s))"
proof -
  let ?s' = "snd (JobsService_scheduleCron ce u p T s)"
  have t: "tasksTable ?s' = tasksTable s"
    by (rule JobsService_scheduleCron_tables)
  consider "jobsTable ?s' = jobsTable s"
    | i where "jobsTable ?s' = jobsTable s @ [\<lparr>dbj_id = i, dbj_type = CRON, dbj_taskId = T\<rparr>]"
        "T \<in> t_id ` set (tasksTable s)"
    using JobsService_scheduleCron_tables(2) [of ce u p T s] by blast
  then show ?thesis
  proof cases
    case 1
    have "bounded T a 0 ?s'" using assms t 1 by (auto intro: bounded_same)
    then show ?thesis by (rule bounded_mono) simp_all
  next
    case 2
    with assms t show ?thesis by (rule bounded_add_cron)
  qed
qed

lemma rescheduleSingle_bounded:
  "bounded T a b s \<Longrightarrow> bounded T a b (snd (JobsService_rescheduleSingle now p s))"
  by (erule bounded_same) (simp_all add: JobsService_reschedule_frame)

lemma rescheduleCron_bounded:
  "bounded T a b s \<Longrightarrow> bounded T a b (snd (JobsService_rescheduleCron ce p s))"
  by (erule bounded_same) (simp_all add: JobsService_reschedule_frame)

lemma unscheduleSingle_bounded:
  assumes "bounded T a b s"
  shows "bounded T a b (snd (JobsService_unscheduleSingle i s))"
  using JobsService_unscheduleSingle_tables [of i s] assms
  by (auto intro: bounded_filter bounded_same)

lemma unscheduleCron_bounded:
  assumes "bounded T a b s"
  shows "bounded T a b (snd (JobsService_unscheduleCron i s))"
  using JobsService_unscheduleCron_tables [of i s] assms
  by (auto intro: bounded_filter bounded_same)


subsection \<open>The blocks of update\<close>

lemma update_dueTo_value_bounded:
  assumes "bounded T cS cC s" "cS \<le> Suc 0"
    "find (\<lambda>job. dbj_type job = SINGLE) jobs = None \<Longrightarrow> cS = 0"
  shows "bounded T (Suc 0) cC (snd (update_dueTo_value env flds T ut jobs s))"
proof (cases "f_dueTo flds")
  case (Value d)
  show ?thesis
  proof (cases "find (\<lambda>job. dbj_type job = SINGLE) jobs")
    case None
    with assms Value show ?thesis
      by (simp add: update_dueTo_value_def andThen_ret_snd scheduleSingle_bounded)
  next
    case (Some job)
    have "bounded T cS cC (snd (update_dueTo_value env flds T ut jobs s))"
      using assms(1) Value Some
      by (simp add: update_dueTo_value_def andThen_ret_snd rescheduleSingle_bounded)
    then show ?thesis using assms(2) bounded_mono [of T cS cC _ "Suc 0" cC] by simp
  qed
next
  case Undefined
  have "bounded T cS cC (snd (update_dueTo_value env flds T ut jobs s))"
    using assms(1) Undefined by (simp add: update_dueTo_value_def ret_def)
  then show ?thesis using assms(2) bounded_mono [of T cS cC _ "Suc 0" cC] by simp
next
  case Null
  have "bounded T cS cC (snd (update_dueTo_value env flds T ut jobs s))"
    using assms(1) Null by (simp add: update_dueTo_value_def ret_def)
  then show ?thesis using assms(2) bounded_mono [of T cS cC _ "Suc 0" cC] by simp
qed

lemma update_dueTo_null_bounded:
  assumes "bounded T a b s"
  shows "bounded T a b (snd (update_dueTo_null flds jobs s))"
  using assms
  by (auto simp: update_dueTo_null_def ret_def andThen_ret_snd unscheduleSingle_bounded
      split: option.splits)

lemma update_repeat_value_bounded:
  assumes "bounded T cS cC s" "cC \<le> Suc 0"
    "find (\<lambda>job. dbj_type job = CRON) jobs = None \<Longrightarrow> cC = 0"
  shows "bounded T cS (Suc 0) (snd (update_repeat_value env flds T ut jobs s))"
proof -
  have keep: "bounded T cS cC s' \<Longrightarrow> bounded T cS (Suc 0) s'" for s'
    using assms(2) bounded_mono [of T cS cC s' cS "Suc 0"] by simp
  show ?thesis
  proof (cases "f_repeat flds")
    case (Value r)
    show ?thesis
    proof (cases "r = []")
      case True
      with Value assms(1) keep show ?thesis by (simp add: update_repeat_value_def ret_def)
    next
      case False
      show ?thesis
      proof (cases "find (\<lambda>job. dbj_type job = CRON) jobs")
        case None
        with assms Value False show ?thesis
          by (simp add: update_repeat_value_def andThen_ret_snd scheduleCron_bounded)
      next
        case (Some job)
        with assms(1) Value False keep show ?thesis
          by (simp add: update_repeat_value_def andThen_ret_snd rescheduleCron_bounded)
      qed
    qed
  next
    case Undefined
    with assms(1) keep show ?thesis by (simp add: update_repeat_value_def ret_def)
  next
    case Null
    with assms(1) keep show ?thesis by (simp add: update_repeat_value_def ret_def)
  qed
qed

lemma update_repeat_null_bounded:
  assumes "bounded T a b s"
  shows "bounded T a b (snd (update_repeat_null flds jobs s))"
  using assms
  by (auto simp: update_repeat_null_def ret_def andThen_ret_snd unscheduleCron_bounded
      split: option.splits)

lemma snapshot_bounded:
  assumes "store_consistent s"
  shows "bounded T
           (if find (\<lambda>job. dbj_type job = SINGLE)
                 (filter (\<lambda>j. dbj_taskId j = T) (jobsTable s)) = None then 0 else Suc 0)
           (if find (\<lambda>job. dbj_type job = CRON)
                 (filter (\<lambda>j. dbj_taskId j = T) (jobsTable s)) = None then 0 else Suc 0) s"
proof -
  have z: "find (\<lambda>job. dbj_type job = ty) (filter (\<lambda>j. dbj_taskId j = T) (jobsTable s)) = None
           \<Longrightarrow> bindings ty T (jobsTable s) = 0" for ty
    by (auto simp: find_None_iff bindings_zero_iff)
  have le: "bindings ty T' (jobsTable s) \<le> 1" for ty T'
    using assms by (simp add: store_consistent_iff)
  have "bindings ty T' (jobsTable s) \<le>
          cap T (if find (\<lambda>job. dbj_type job = SINGLE)
                 (filter (\<lambda>j. dbj_taskId j = T) (jobsTable s)) = None then 0 else Suc 0)
           (if find (\<lambda>job. dbj_type job = CRON)
                 (filter (\<lambda>j. dbj_taskId j = T) (jobsTable s)) = None then 0 else Suc 0) ty T'" for ty T'
    using z [of ty] le [of ty T'] by (cases ty) (auto simp: cap_def)
  then show ?thesis using assms by (simp add: bounded_def store_consistent_iff)
qed

lemma reconcile_consistent:
  assumes "store_consistent s"
  shows "store_consistent (snd (andThen (JobsService_findByTaskId T) (\<lambda>jobs.
      andThen (update_dueTo_value env flds T ut jobs) (\<lambda>_.
      andThen (update_dueTo_null flds jobs) (\<lambda>_.
      andThen (update_repeat_value env flds T ut jobs) (\<lambda>_.
      andThen (update_repeat_null flds jobs) (\<lambda>_.
      ret x))))) s))"
proof -
  let ?jobs = "filter (\<lambda>j. dbj_taskId j = T) (jobsTable s)"
  let ?cS = "if find (\<lambda>job. dbj_type job = SINGLE) ?jobs = None then 0 else Suc 0"
  let ?cC = "if find (\<lambda>job. dbj_type job = CRON) ?jobs = None then 0 else Suc 0"
  have b0: "bounded T ?cS ?cC s" using assms by (rule snapshot_bounded)
  have fin: "bounded T a b s' \<Longrightarrow> a \<le> Suc 0 \<Longrightarrow> b \<le> Suc 0 \<Longrightarrow> store_consistent s'" for a b s'
    by (rule bounded_consistent)
  let ?s1 = "snd (update_dueTo_value env flds T ut ?jobs s)"
  have b1: "bounded T (Suc 0) ?cC ?s1"
    by (rule update_dueTo_value_bounded [OF b0]) (simp_all split: if_splits)
  let ?s2 = "snd (update_dueTo_null flds ?jobs ?s1)"
  have b2: "bounded T (Suc 0) ?cC ?s2" using b1 by (rule update_dueTo_null_bounded)
  let ?s3 = "snd (update_repeat_value env flds T ut ?jobs ?s2)"
  have b3: "bounded T (Suc 0) (Suc 0) ?s3"
    by (rule update_repeat_value_bounded [OF b2]) (simp_all split: if_splits)
  let ?s4 = "snd (update_repeat_null flds ?jobs ?s3)"
  have b4: "bounded T (Suc 0) (Suc 0) ?s4" using b3 by (rule update_repeat_null_bounded)
  have c1: "store_consistent ?s1" using b1 by (rule fin) simp_all
  have c2: "store_consistent ?s2" using b2 by (rule fin) simp_all
  have c3: "store_consistent ?s3" using b3 by (rule fin) simp_all
  have c4: "store_consistent ?s4" using b4 by (rule fin) simp_all
  have j: "JobsService_findByTaskId T s = (Inr ?jobs, s)"
    by (simp add: JobsService_findByTaskId_def JobsRepository_findByTaskId_def)
  show ?thesis
    apply (subst andThen_Inr [where m = "JobsService_findByTaskId T", OF j])
    apply (rule andThen_post2, rule c1)
    apply (rule andThen_post2, rule c2)
    apply (rule andThen_post2, rule c3)
    apply (rule andThen_post2, rule c4)
    apply (simp add: ret_def c4)
    done
qed


subsection \<open>The three lifecycle operations keep the store consistent\<close>

lemma TasksRepository_update_tables:
  "jobsTable (snd (TasksRepository_update now w f s)) = jobsTable s"
  "t_id ` set (tasksTable (snd (TasksRepository_update now w f s))) = t_id ` set (tasksTable s)"
proof -
  show "jobsTable (snd (TasksRepository_update now w f s)) = jobsTable s"
    by (simp add: TasksRepository_update_def Let_def)
  have i: "t_id (if matches w t then set_fields now f t else t) = t_id t" for t
    by (simp add: set_fields_def)
  have "t_id ` (\<lambda>t. if matches w t then set_fields now f t else t) ` set ts = t_id ` set ts" for ts
    by (simp only: image_image i)
  then show "t_id ` set (tasksTable (snd (TasksRepository_update now w f s))) = t_id ` set (tasksTable s)"
    by (simp add: TasksRepository_update_def Let_def)
qed

lemma store_consistent_cong:
  assumes "store_consistent s" "jobsTable s' = jobsTable s"
    "t_id ` set (tasksTable s') = t_id ` set (tasksTable s)"
  shows "store_consistent s'"
  using assms by (simp add: store_consistent_def)

lemma check_schedule_state:
  "snd ((case x of None \<Rightarrow> ret ()
         | Some scheduleId \<Rightarrow>
             if scheduleId \<noteq> [] then
               andThen (SchedulesRepository_findOne scheduleId) (\<lambda>dbSchedule.
                 case dbSchedule of None \<Rightarrow> throw (ScheduleNotFoundException scheduleId)
                 | Some _ \<Rightarrow> ret ())
             else ret ()) s) = s"
  by (auto simp: ret_def throw_def andThen_def SchedulesRepository_findOne_def
      split: option.splits)

lemma TasksService_update_consistent:
  assumes "store_consistent s"
  shows "store_consistent (snd (TasksService_update env dto s))"
  unfolding TasksService_update_def Let_def
proof (rule andThen_post2, goal_cases)
  case 1
  show ?case by (simp add: check_schedule_state assms)
next
  case (2 x)
  show ?case
  proof (simp only: check_schedule_state, rule andThen_post2, goal_cases)
    case 1
    show ?case using assms
      by (rule store_consistent_cong) (simp_all add: TasksRepository_update_tables)
  next
    case (2 updated)
    have c: "store_consistent (snd (TasksRepository_update (env_now env)
               \<lparr>w_id = w_id (u_where dto), w_userId = w_userId (u_where dto)\<rparr>
               \<lparr>uf_description = f_description (u_fields dto),
                  uf_dueTo = (case f_dueTo (u_fields dto) of Value d \<Rightarrow> Value d | _ \<Rightarrow> Undefined),
                  uf_name = f_name (u_fields dto), uf_repeat = f_repeat (u_fields dto),
                  uf_scheduleId = f_scheduleId (u_fields dto),
                  uf_status = f_status (u_fields dto)\<rparr> s))"
      using assms by (rule store_consistent_cong) (simp_all add: TasksRepository_update_tables)
    show ?case
    proof (cases updated)
      case None
      with c show ?thesis by (simp add: throw_def)
    next
      case (Some updatedTask)
      with reconcile_consistent [OF c] show ?thesis by simp
    qed
  qed
qed


lemma TasksRepository_create_bounded:
  assumes "store_consistent s" "TasksRepository_create now newId dto s = (Inr row, s')"
  shows "bounded (t_id row) 0 0 s'"
proof -
  from assms(2) have n: "newId \<notin> t_id ` set (tasksTable s)" and r: "t_id row = newId"
    and j: "jobsTable s' = jobsTable s" and t: "tasksTable s' = tasksTable s @ [row]"
    by (auto simp: TasksRepository_create_def Let_def split: if_splits)
  have fk: "\<forall>j \<in> set (jobsTable s). dbj_taskId j \<in> t_id ` set (tasksTable s)"
    and le: "\<And>ty T. bindings ty T (jobsTable s) \<le> 1"
    using assms(1) by (simp_all add: store_consistent_iff)
  have z: "bindings ty newId (jobsTable s) = 0" for ty
    using fk n by (auto simp: bindings_zero_iff)
  have "bindings ty T' (jobsTable s') \<le> cap (t_id row) 0 0 ty T'" for ty T'
    using z [of ty] le [of ty T'] r j by (cases ty) (auto simp: cap_def)
  moreover have "\<forall>j \<in> set (jobsTable s'). dbj_taskId j \<in> t_id ` set (tasksTable s')"
    using fk j t by auto
  ultimately show ?thesis by (simp add: bounded_def)
qed

lemma TasksRepository_create_fail:
  "TasksRepository_create now newId dto s = (Inl e, s') \<Longrightarrow> s' = s"
  by (auto simp: TasksRepository_create_def Let_def split: if_splits)

lemma create_dueTo_bounded:
  assumes "bounded T 0 b s"
  shows "bounded T (Suc 0) b
           (snd ((case d of None \<Rightarrow> ret ()
                  | Some dueTo \<Rightarrow> andThen (JobsService_scheduleSingle now u (p dueTo) T) (\<lambda>_. ret ())) s))"
proof (cases d)
  case None
  then show ?thesis using bounded_mono [OF assms, of "Suc 0" b] by (simp add: ret_def)
next
  case (Some dueTo)
  then show ?thesis using assms by (simp add: andThen_ret_snd scheduleSingle_bounded)
qed

lemma create_repeat_bounded:
  assumes "bounded T a 0 s"
  shows "bounded T a (Suc 0)
           (snd ((case r of None \<Rightarrow> ret ()
                  | Some repeat \<Rightarrow>
                      if repeat \<noteq> [] then
                        andThen (JobsService_scheduleCron ce u (p repeat) T) (\<lambda>_. ret ())
                      else ret ()) s))"
proof -
  have k: "bounded T a (Suc 0) s" using bounded_mono [OF assms, of a "Suc 0"] by simp
  show ?thesis using assms k
    by (auto simp: ret_def andThen_ret_snd scheduleCron_bounded split: option.splits)
qed

lemma TasksService_create_consistent:
  assumes "store_consistent s"
  shows "store_consistent (snd (TasksService_create env dto s))"
proof (cases "find (\<lambda>x. x = c_scheduleId dto) (schedulesTable s)")
  case None
  then show ?thesis using assms
    by (simp add: TasksService_create_def andThen_def SchedulesRepository_findOne_def throw_def)
next
  case (Some sch)
  have f: "SchedulesRepository_findOne (c_scheduleId dto) s = (Inr (Some sch), s)"
    using Some by (simp add: SchedulesRepository_findOne_def)
  show ?thesis
    unfolding TasksService_create_def
    apply (subst andThen_Inr [where m = "SchedulesRepository_findOne (c_scheduleId dto)", OF f])
    apply simp
  proof (rule andThen_post, goal_cases)
    case (1 e s')
    then show ?case using assms TasksRepository_create_fail by blast
  next
    case (2 row s')
    have b0: "bounded (t_id row) 0 0 s'"
      using assms 2 by (rule TasksRepository_create_bounded)
    show ?case
      apply (rule andThen_post2)
       apply (rule bounded_consistent [OF create_dueTo_bounded [OF b0]]; simp)
      apply (rule andThen_post2)
       apply (rule bounded_consistent
          [OF create_repeat_bounded [OF create_dueTo_bounded [OF b0]]]; simp)
      apply (simp add: ret_def)
      apply (rule bounded_consistent
          [OF create_repeat_bounded [OF create_dueTo_bounded [OF b0]]]; simp)
      done
  qed
qed

lemma unscheduleSingle_consistent:
  "store_consistent s \<Longrightarrow> store_consistent (snd (JobsService_unscheduleSingle i s))"
  using unscheduleSingle_bounded [of "[]" "Suc 0" "Suc 0" s i]
  by (simp add: store_consistent_bounded [of _ "[]"])

lemma unscheduleCron_consistent:
  "store_consistent s \<Longrightarrow> store_consistent (snd (JobsService_unscheduleCron i s))"
  using unscheduleCron_bounded [of "[]" "Suc 0" "Suc 0" s i]
  by (simp add: store_consistent_bounded [of _ "[]"])

lemma TasksRepository_remove_consistent:
  assumes "store_consistent s"
  shows "store_consistent (snd (TasksRepository_remove w s))"
proof (cases "(\<exists>t \<in> set (tasksTable s). matches w t) \<and> (\<exists>j \<in> set (jobsTable s). dbj_taskId j = w_id w)")
  case True
  then show ?thesis using assms by (simp add: TasksRepository_remove_def)
next
  case False
  have "dbj_taskId j \<in> t_id ` set (filter (\<lambda>t. \<not> matches w t) (tasksTable s))"
    if "j \<in> set (jobsTable s)" for j
  proof -
    from assms that obtain t where t: "t \<in> set (tasksTable s)" "t_id t = dbj_taskId j"
      by (auto simp: store_consistent_def)
    have "\<not> matches w t"
    proof
      assume m: "matches w t"
      then have "t_id t = w_id w" by (simp add: matches_def)
      with False m t that show False by auto
    qed
    with t show ?thesis by force
  qed
  with assms False show ?thesis
    by (auto simp: TasksRepository_remove_def store_consistent_def)
qed

lemma TasksService_remove_consistent:
  assumes "store_consistent s"
  shows "store_consistent (snd (TasksService_remove dto s))"
proof (cases "find (matches \<lparr>w_id = w_id (r_where dto), w_userId = w_userId (r_where dto)\<rparr>) (tasksTable s)")
  case None
  then show ?thesis using assms
    by (simp add: TasksService_remove_def Let_def andThen_def TasksRepository_findOne_def throw_def)
next
  case (Some task)
  let ?w = "\<lparr>w_id = w_id (r_where dto), w_userId = w_userId (r_where dto)\<rparr>"
  have f: "TasksRepository_findOne ?w s = (Inr (Some task), s)"
    using Some by (simp add: TasksRepository_findOne_def)
  have j: "JobsService_findByTaskId (w_id (r_where dto)) s =
             (Inr (filter (\<lambda>j. dbj_taskId j = w_id (r_where dto)) (jobsTable s)), s)"
    by (simp add: JobsService_findByTaskId_def JobsRepository_findByTaskId_def)
  have s1: "store_consistent s' \<Longrightarrow>
        store_consistent (snd ((if c then (case fj of
              Some job \<Rightarrow> andThen (JobsService_unscheduleSingle (dbj_id job)) (\<lambda>_. ret ())
            | None \<Rightarrow> ret ()) else ret ()) s'))" for s' c fj
    by (auto simp: ret_def andThen_ret_snd unscheduleSingle_consistent split: option.splits)
  have s2: "store_consistent s' \<Longrightarrow>
        store_consistent (snd ((if c then (case fj of
              Some job \<Rightarrow> andThen (JobsService_unscheduleCron (dbj_id job)) (\<lambda>_. ret ())
            | None \<Rightarrow> ret ()) else ret ()) s'))" for s' c fj
    by (auto simp: ret_def andThen_ret_snd unscheduleCron_consistent split: option.splits)
  show ?thesis
    unfolding TasksService_remove_def Let_def
    apply (subst andThen_Inr [where m = "TasksRepository_findOne ?w", OF f])
    apply simp
    apply (subst andThen_Inr [where m = "JobsService_findByTaskId (w_id (r_where dto))", OF j])
    apply (rule andThen_post2)
     apply (rule s1 [OF assms])
    apply (rule andThen_post2)
     apply (rule s2 [OF s1 [OF assms]])
    apply (simp only: andThen_ret_snd)
    apply (rule TasksRepository_remove_consistent [OF s2 [OF s1 [OF assms]]])
    done
qed

lemma step_consistent: "store_consistent s \<Longrightarrow> store_consistent (step s x)"
  by (cases x)
    (simp_all add: TasksService_create_consistent TasksService_update_consistent
      TasksService_remove_consistent)

lemma run_consistent: "store_consistent s \<Longrightarrow> store_consistent (run ops s)"
  unfolding run_def by (induction ops arbitrary: s) (simp_all add: step_consistent)


subsection \<open>Rescheduling leaves the Job Store alone\<close>

lemma find_filter_keep: "find Q xs = Some b \<Longrightarrow> R b \<Longrightarrow> find Q (filter R xs) = Some b"
  by (induction xs) (auto split: if_splits)

lemma filter_commute: "filter P (filter Q xs) = filter Q (filter P xs)"
  by (induction xs) auto

lemma find_append_Some: "find Q xs = Some b \<Longrightarrow> find Q (xs @ ys) = Some b"
  by (induction xs) auto

lemma update_dueTo_value_reschedule:
  assumes "f_dueTo flds = Value d" "find (\<lambda>job. dbj_type job = SINGLE) jobs = Some b"
  shows "jobsTable (snd (update_dueTo_value env flds T ut jobs s)) = jobsTable s"
  using assms by (simp add: update_dueTo_value_def andThen_ret_snd JobsService_reschedule_frame)

lemma update_dueTo_null_skip:
  "f_dueTo flds \<noteq> Null \<Longrightarrow> snd (update_dueTo_null flds jobs s) = s"
  by (simp add: update_dueTo_null_def ret_def)

lemma update_repeat_value_tables:
  "jobsTable (snd (update_repeat_value env flds T ut jobs s)) = jobsTable s \<or>
   (\<exists>i. jobsTable (snd (update_repeat_value env flds T ut jobs s)) =
          jobsTable s @ [\<lparr>dbj_id = i, dbj_type = CRON, dbj_taskId = T\<rparr>])"
proof (cases "f_repeat flds")
  case (Value r)
  show ?thesis
  proof (cases "r \<noteq> [] \<and> find (\<lambda>job. dbj_type job = CRON) jobs = None")
    case True
    then show ?thesis
      using Value JobsService_scheduleCron_tables(2)
      by (simp add: update_repeat_value_def andThen_ret_snd) blast
  next
    case False
    then show ?thesis using Value
      by (auto simp: update_repeat_value_def andThen_ret_snd ret_def JobsService_reschedule_frame
          split: option.splits)
  qed
qed (simp_all add: update_repeat_value_def ret_def)

lemma update_repeat_value_skip:
  "f_repeat flds = Null \<Longrightarrow> snd (update_repeat_value env flds T ut jobs s) = s"
  by (simp add: update_repeat_value_def ret_def)

lemma update_repeat_null_skip:
  "f_repeat flds \<noteq> Null \<Longrightarrow> snd (update_repeat_null flds jobs s) = s"
  by (simp add: update_repeat_null_def ret_def)

lemma update_repeat_null_tables:
  "jobsTable (snd (update_repeat_null flds jobs s)) = jobsTable s \<or>
   (\<exists>c. find (\<lambda>job. dbj_type job = CRON) jobs = Some c \<and>
        jobsTable (snd (update_repeat_null flds jobs s)) =
          filter (\<lambda>j. dbj_id j \<noteq> dbj_id c) (jobsTable s))"
proof (cases "f_repeat flds = Null")
  case True
  show ?thesis
  proof (cases "find (\<lambda>job. dbj_type job = CRON) jobs")
    case None
    with True show ?thesis by (simp add: update_repeat_null_def ret_def)
  next
    case (Some c)
    with True JobsService_unscheduleCron_tables(2) [of "dbj_id c" s] show ?thesis
      by (auto simp: update_repeat_null_def andThen_ret_snd)
  qed
next
  case False
  then show ?thesis by (simp add: update_repeat_null_skip)
qed

lemma reconcile_keeps_single:
  assumes d: "f_dueTo flds = Value d"
    and b: "find (\<lambda>job. dbj_type job = SINGLE) (filter (\<lambda>j. dbj_taskId j = T) (jobsTable s)) = Some b"
    and u: "distinct (map dbj_id (jobsTable s))"
  shows "find (\<lambda>job. dbj_type job = SINGLE) (filter (\<lambda>j. dbj_taskId j = T)
           (jobsTable (snd (andThen (JobsService_findByTaskId T) (\<lambda>jobs.
      andThen (update_dueTo_value env flds T ut jobs) (\<lambda>_.
      andThen (update_dueTo_null flds jobs) (\<lambda>_.
      andThen (update_repeat_value env flds T ut jobs) (\<lambda>_.
      andThen (update_repeat_null flds jobs) (\<lambda>_.
      ret x))))) s)))) = Some b"
proof -
  let ?jobs = "filter (\<lambda>j. dbj_taskId j = T) (jobsTable s)"
  let ?K = "\<lambda>s'. find (\<lambda>job. dbj_type job = SINGLE) (filter (\<lambda>j. dbj_taskId j = T) (jobsTable s')) = Some b"
  let ?s1 = "snd (update_dueTo_value env flds T ut ?jobs s)"
  let ?s2 = "snd (update_dueTo_null flds ?jobs ?s1)"
  let ?s3 = "snd (update_repeat_value env flds T ut ?jobs ?s2)"
  let ?s4 = "snd (update_repeat_null flds ?jobs ?s3)"
  have bs: "b \<in> set (jobsTable s)" "dbj_type b = SINGLE" "dbj_taskId b = T"
    using b by (auto simp: find_Some_iff dest: nth_mem)
  have j1: "jobsTable ?s1 = jobsTable s" using d b by (rule update_dueTo_value_reschedule)
  have e2: "?s2 = ?s1" using d by (simp add: update_dueTo_null_skip)
  have k1: "?K ?s1" using j1 b by simp
  have k2: "?K ?s2" using e2 k1 by simp
  have k3: "?K ?s3"
    using update_repeat_value_tables [of env flds T ut ?jobs ?s2] e2 j1 b
    by (auto simp: find_append_Some)
  have k4: "?K ?s4"
  proof (cases "f_repeat flds = Null")
    case False
    then show ?thesis using k3 by (simp add: update_repeat_null_skip)
  next
    case True
    then have j3: "jobsTable ?s3 = jobsTable s"
      using e2 j1 by (simp add: update_repeat_value_skip)
    from update_repeat_null_tables [of flds ?jobs ?s3]
    consider "jobsTable ?s4 = jobsTable ?s3"
      | c where "find (\<lambda>job. dbj_type job = CRON) ?jobs = Some c"
          "jobsTable ?s4 = filter (\<lambda>j. dbj_id j \<noteq> dbj_id c) (jobsTable ?s3)"
      by blast
    then show ?thesis
    proof cases
      case 1
      then show ?thesis using j3 b by simp
    next
      case 2
      have cs: "c \<in> set (jobsTable s)" "dbj_type c = CRON"
        using 2(1) by (auto simp: find_Some_iff dest: nth_mem)
      have "b \<noteq> c" using bs cs by auto
      then have ne: "dbj_id b \<noteq> dbj_id c"
        using u bs(1) cs(1) by (auto simp: distinct_map inj_on_def)
      have "find (\<lambda>job. dbj_type job = SINGLE)
              (filter (\<lambda>j. dbj_id j \<noteq> dbj_id c) ?jobs) = Some b"
        using b ne by (rule find_filter_keep)
      moreover have "filter (\<lambda>j. dbj_taskId j = T) (filter (\<lambda>j. dbj_id j \<noteq> dbj_id c) (jobsTable s))
            = filter (\<lambda>j. dbj_id j \<noteq> dbj_id c) ?jobs"
        by (rule filter_commute)
      ultimately show ?thesis using 2(2) j3 by simp
    qed
  qed
  have j: "JobsService_findByTaskId T s = (Inr ?jobs, s)"
    by (simp add: JobsService_findByTaskId_def JobsRepository_findByTaskId_def)
  show ?thesis
    apply (subst andThen_Inr [where m = "JobsService_findByTaskId T", OF j])
    apply (rule andThen_post2 [where Q = ?K], rule k1)
    apply (rule andThen_post2 [where Q = ?K], rule k2)
    apply (rule andThen_post2 [where Q = ?K], rule k3)
    apply (rule andThen_post2 [where Q = ?K], rule k4)
    apply (simp add: ret_def k4)
    done
qed

lemma filter_single_drop_cron:
  assumes "distinct (map dbj_id js)" "c \<in> set js" "dbj_type c = CRON"
  shows "filter (\<lambda>j. dbj_type j = SINGLE) (filter (\<lambda>j. dbj_id j \<noteq> dbj_id c) js) =
         filter (\<lambda>j. dbj_type j = SINGLE) js"
proof -
  have "dbj_id j \<noteq> dbj_id c" if "j \<in> set js" "dbj_type j = SINGLE" for j
  proof
    assume "dbj_id j = dbj_id c"
    then have "j = c" using assms(1,2) that(1) by (auto simp: distinct_map inj_on_def)
    then show False using assms(3) that(2) by simp
  qed
  then have "filter (\<lambda>j. dbj_id j \<noteq> dbj_id c \<and> dbj_type j = SINGLE) js =
             filter (\<lambda>j. dbj_type j = SINGLE) js"
    by (intro filter_cong) auto
  then show ?thesis by (simp add: conj_commute)
qed

lemma reconcile_keeps_single_rows:
  assumes d: "f_dueTo flds = Value d"
    and b: "find (\<lambda>job. dbj_type job = SINGLE) (filter (\<lambda>j. dbj_taskId j = T) (jobsTable s)) = Some b"
    and u: "distinct (map dbj_id (jobsTable s))"
  shows "filter (\<lambda>j. dbj_type j = SINGLE)
           (jobsTable (snd (andThen (JobsService_findByTaskId T) (\<lambda>jobs.
      andThen (update_dueTo_value env flds T ut jobs) (\<lambda>_.
      andThen (update_dueTo_null flds jobs) (\<lambda>_.
      andThen (update_repeat_value env flds T ut jobs) (\<lambda>_.
      andThen (update_repeat_null flds jobs) (\<lambda>_.
      ret x))))) s))) = filter (\<lambda>j. dbj_type j = SINGLE) (jobsTable s)"
proof -
  let ?jobs = "filter (\<lambda>j. dbj_taskId j = T) (jobsTable s)"
  let ?K = "\<lambda>s'. filter (\<lambda>j. dbj_type j = SINGLE) (jobsTable s') =
                 filter (\<lambda>j. dbj_type j = SINGLE) (jobsTable s)"
  let ?s1 = "snd (update_dueTo_value env flds T ut ?jobs s)"
  let ?s2 = "snd (update_dueTo_null flds ?jobs ?s1)"
  let ?s3 = "snd (update_repeat_value env flds T ut ?jobs ?s2)"
  let ?s4 = "snd (update_repeat_null flds ?jobs ?s3)"
  have j1: "jobsTable ?s1 = jobsTable s" using d b by (rule update_dueTo_value_reschedule)
  have e2: "?s2 = ?s1" using d by (simp add: update_dueTo_null_skip)
  have k1: "?K ?s1" using j1 by simp
  have k2: "?K ?s2" using e2 k1 by simp
  have k3: "?K ?s3"
    using update_repeat_value_tables [of env flds T ut ?jobs ?s2] e2 j1 by auto
  have k4: "?K ?s4"
  proof (cases "f_repeat flds = Null")
    case False
    then show ?thesis using k3 by (simp add: update_repeat_null_skip)
  next
    case True
    then have j3: "jobsTable ?s3 = jobsTable s"
      using e2 j1 by (simp add: update_repeat_value_skip)
    from update_repeat_null_tables [of flds ?jobs ?s3]
    consider "jobsTable ?s4 = jobsTable ?s3"
      | c where "find (\<lambda>job. dbj_type job = CRON) ?jobs = Some c"
          "jobsTable ?s4 = filter (\<lambda>j. dbj_id j \<noteq> dbj_id c) (jobsTable ?s3)"
      by blast
    then show ?thesis
    proof cases
      case 1
      then show ?thesis using j3 by simp
    next
      case 2
      have cs: "c \<in> set (jobsTable s)" "dbj_type c = CRON"
        using 2(1) by (auto simp: find_Some_iff dest: nth_mem)
      show ?thesis using 2(2) j3 filter_single_drop_cron [OF u cs] by simp
    qed
  qed
  have j: "JobsService_findByTaskId T s = (Inr ?jobs, s)"
    by (simp add: JobsService_findByTaskId_def JobsRepository_findByTaskId_def)
  show ?thesis
    apply (subst andThen_Inr [where m = "JobsService_findByTaskId T", OF j])
    apply (rule andThen_post2 [where Q = ?K], rule k1)
    apply (rule andThen_post2 [where Q = ?K], rule k2)
    apply (rule andThen_post2 [where Q = ?K], rule k3)
    apply (rule andThen_post2 [where Q = ?K], rule k4)
    apply (simp add: ret_def k4)
    done
qed

subsection \<open>The binding invariant\<close>

text \<open>
  Claim C2. A state is consistent when no task has two Job Store rows of the same
  type and every row points to a task row (the foreign key the schema declares).
  From a consistent state, after each operation of any sequence of \<open>create\<close>,
  \<open>update\<close> and \<open>remove\<close> calls, whether the call returned or threw, the state is
  consistent again: every task has at most one \<open>SINGLE\<close> and at most one \<open>CRON\<close>
  binding. \<open>create\<close> schedules for the row it has just inserted, whose id no row of
  the store can carry; \<open>update\<close> schedules a job of a type only when the bindings it
  read hold none of that type, and reschedules otherwise.
\<close>

theorem lifecycle_keeps_bindings_unique:
  "store_consistent s \<Longrightarrow>
   store_consistent (run (take n ops) s) \<and>
   (\<forall>T. bindings SINGLE T (jobsTable (run (take n ops) s)) \<le> 1 \<and>
        bindings CRON T (jobsTable (run (take n ops) s)) \<le> 1)"
  using run_consistent [of s "take n ops"] by (simp add: store_consistent_iff)

theorem lifecycle_keeps_bindings_unique_witness:
  "store_consistent example_world
   \<and> (\<forall>T. bindings SINGLE T
             (jobsTable (run (take 2
                [Create example_env
                   \<lparr>c_name = ''a'', c_scheduleId = ''s1'', c_userId = ''u'', c_description = None,
                    c_status = None, c_dueTo = Some 9000, c_repeat = Some ''* * * * *'',
                    c_priority = None, c_fixed = None, c_startTime = None, c_endTime = None\<rparr>,
                 Update example_env
                   \<lparr>u_where = \<lparr>w_id = ''t9'', w_userId = None\<rparr>,
                    u_fields = \<lparr>f_name = None, f_description = Undefined, f_dueTo = Value 7000,
                                f_repeat = Null, f_status = None, f_scheduleId = None\<rparr>\<rparr>])
                example_world)) \<le> 1)
   \<and> map dbj_id (jobsTable (run
         [Create example_env
            \<lparr>c_name = ''a'', c_scheduleId = ''s1'', c_userId = ''u'', c_description = None,
             c_status = None, c_dueTo = Some 9000, c_repeat = Some ''* * * * *'',
             c_priority = None, c_fixed = None, c_startTime = None, c_endTime = None\<rparr>,
          Update example_env
            \<lparr>u_where = \<lparr>w_id = ''t9'', w_userId = None\<rparr>,
             u_fields = \<lparr>f_name = None, f_description = Undefined, f_dueTo = Value 7000,
                         f_repeat = Null, f_status = None, f_scheduleId = None\<rparr>\<rparr>]
         example_world)) = [''j1'', ''j8'']"
proof -
  have h: "store_consistent example_world"
    by (simp add: store_consistent_def example_world_def example_task_def bindings_def)
  have r: "map dbj_id (jobsTable (run
         [Create example_env
            \<lparr>c_name = ''a'', c_scheduleId = ''s1'', c_userId = ''u'', c_description = None,
             c_status = None, c_dueTo = Some 9000, c_repeat = Some ''* * * * *'',
             c_priority = None, c_fixed = None, c_startTime = None, c_endTime = None\<rparr>,
          Update example_env
            \<lparr>u_where = \<lparr>w_id = ''t9'', w_userId = None\<rparr>,
             u_fields = \<lparr>f_name = None, f_description = Undefined, f_dueTo = Value 7000,
                         f_repeat = Null, f_status = None, f_scheduleId = None\<rparr>\<rparr>]
         example_world)) = [''j1'', ''j8'']"
    by (simp add: run_def example_task_def example_world_def example_env_def example_cronError_def service_defs
        facade_defs repo_defs engine_defs monad_defs Let_def)
  from lifecycle_keeps_bindings_unique [OF h] h r show ?thesis by blast
qed

subsection \<open>Rescheduling keeps the binding\<close>

text \<open>
  Claim C6. \<open>rescheduleSingle\<close> and \<open>rescheduleCron\<close> of the facade leave the Job
  Store as it was, whatever the engine answers. Consequently, when \<open>update\<close> is given
  a due date and the task has a \<open>SINGLE\<close> binding, the \<open>SINGLE\<close> rows of the Job
  Store after the call are those of before, in the same order: no \<open>SINGLE\<close> row is
  added, removed or changed, for this task or any other. In particular the \<open>SINGLE\<close>
  rows of the task are unchanged and the binding found for the task is the same row,
  with the same job id. This holds whether the call returned or threw; job ids are
  unique in the store, as its primary key demands.
\<close>

theorem reschedule_leaves_store:
  "jobsTable (snd (JobsService_rescheduleSingle now p s)) = jobsTable s
   \<and> jobsTable (snd (JobsService_rescheduleCron ce q s)) = jobsTable s
   \<and> (f_dueTo (u_fields dto) = Value T2
        \<and> find (\<lambda>job. dbj_type job = SINGLE)
              (filter (\<lambda>j. dbj_taskId j = w_id (u_where dto)) (jobsTable s)) = Some b
        \<and> distinct (map dbj_id (jobsTable s))
      \<longrightarrow> find (\<lambda>job. dbj_type job = SINGLE)
            (filter (\<lambda>j. dbj_taskId j = w_id (u_where dto))
               (jobsTable (snd (TasksService_update env dto s)))) = Some b
        \<and> filter (\<lambda>j. dbj_type j = SINGLE) (jobsTable (snd (TasksService_update env dto s))) =
            filter (\<lambda>j. dbj_type j = SINGLE) (jobsTable s)
        \<and> filter (\<lambda>j. dbj_type j = SINGLE \<and> dbj_taskId j = w_id (u_where dto))
              (jobsTable (snd (TasksService_update env dto s))) =
            filter (\<lambda>j. dbj_type j = SINGLE \<and> dbj_taskId j = w_id (u_where dto)) (jobsTable s))"
proof -
  let ?T = "w_id (u_where dto)"
  let ?F = "\<lambda>s'. find (\<lambda>job. dbj_type job = SINGLE)
              (filter (\<lambda>j. dbj_taskId j = ?T) (jobsTable s')) = Some b"
  let ?K = "\<lambda>s'. ?F s' \<and> filter (\<lambda>j. dbj_type j = SINGLE) (jobsTable s') =
                          filter (\<lambda>j. dbj_type j = SINGLE) (jobsTable s)"
  have r1: "jobsTable (snd (JobsService_rescheduleSingle now p s)) = jobsTable s"
    by (rule JobsService_reschedule_frame)
  have r2: "jobsTable (snd (JobsService_rescheduleCron ce q s)) = jobsTable s"
    by (rule JobsService_reschedule_frame)
  have r3: "?K (snd (TasksService_update env dto s))"
    if a: "f_dueTo (u_fields dto) = Value T2 \<and> ?F s \<and> distinct (map dbj_id (jobsTable s))"
  proof -
    let ?s1 = "snd (TasksRepository_update (env_now env)
               \<lparr>w_id = ?T, w_userId = w_userId (u_where dto)\<rparr>
               \<lparr>uf_description = f_description (u_fields dto),
                  uf_dueTo = (case f_dueTo (u_fields dto) of Value d \<Rightarrow> Value d | _ \<Rightarrow> Undefined),
                  uf_name = f_name (u_fields dto), uf_repeat = f_repeat (u_fields dto),
                  uf_scheduleId = f_scheduleId (u_fields dto),
                  uf_status = f_status (u_fields dto)\<rparr> s)"
    have j1: "jobsTable ?s1 = jobsTable s" by (rule TasksRepository_update_tables)
    have k1: "?K ?s1" using a j1 by simp
    have f1: "?F ?s1" using k1 by simp
    have u1: "distinct (map dbj_id (jobsTable ?s1))" using a j1 by simp
    show ?thesis
      unfolding TasksService_update_def Let_def
    proof (rule andThen_post2 [where Q = ?K], goal_cases)
      case 1
      show ?case using a by (simp add: check_schedule_state)
    next
      case (2 x)
      show ?case
      proof (simp only: check_schedule_state, rule andThen_post2 [where Q = ?K], goal_cases)
        case 1
        show ?case by (rule k1)
      next
        case (2 updated)
        show ?case
        proof (cases updated)
          case None
          with k1 show ?thesis by (simp add: throw_def)
        next
          case (Some updatedTask)
          note A = reconcile_keeps_single [OF conjunct1 [OF a] f1 u1, where env = env
              and ut = updatedTask and x = "dbToDomain updatedTask"]
          note B = reconcile_keeps_single_rows [OF conjunct1 [OF a] f1 u1, where env = env
              and ut = updatedTask and x = "dbToDomain updatedTask"]
          show ?thesis
            unfolding Some option.case
            by (intro conjI) (rule A, rule trans [OF B], simp only: j1)
        qed
      qed
    qed
  qed
  have r4: "filter (\<lambda>j. dbj_type j = SINGLE \<and> dbj_taskId j = ?T) js' =
            filter (\<lambda>j. dbj_type j = SINGLE \<and> dbj_taskId j = ?T) js"
    if "filter (\<lambda>j. dbj_type j = SINGLE) js' = filter (\<lambda>j. dbj_type j = SINGLE) js"
    for js js' :: "DbJob list"
  proof -
    have e: "filter (\<lambda>j. dbj_type j = SINGLE \<and> dbj_taskId j = ?T) xs =
          filter (\<lambda>j. dbj_taskId j = ?T) (filter (\<lambda>j. dbj_type j = SINGLE) xs)"
      for xs :: "DbJob list"
      by (simp add: conj_commute)
    show ?thesis by (simp only: e that)
  qed
  show ?thesis
    using r1 r2 r3 r4 by blast
qed

theorem reschedule_leaves_store_witness:
  "f_dueTo \<lparr>f_name = None, f_description = Undefined, f_dueTo = Value 9000, f_repeat = Undefined,
            f_status = None, f_scheduleId = None\<rparr> = Value 9000
   \<and> find (\<lambda>job. dbj_type job = SINGLE)
        (filter (\<lambda>j. dbj_taskId j = ''t1'') (jobsTable example_world)) =
        Some \<lparr>dbj_id = ''j1'', dbj_type = SINGLE, dbj_taskId = ''t1''\<rparr>
   \<and> distinct (map dbj_id (jobsTable example_world))
   \<and> find (\<lambda>job. dbj_type job = SINGLE)
        (filter (\<lambda>j. dbj_taskId j = ''t1'')
           (jobsTable (snd (TasksService_update example_env
              \<lparr>u_where = \<lparr>w_id = ''t1'', w_userId = Some ''u''\<rparr>,
               u_fields = \<lparr>f_name = None, f_description = Undefined, f_dueTo = Value 9000,
                           f_repeat = Undefined, f_status = None, f_scheduleId = None\<rparr>\<rparr>
              example_world)))) =
        Some \<lparr>dbj_id = ''j1'', dbj_type = SINGLE, dbj_taskId = ''t1''\<rparr>
   \<and> filter (\<lambda>j. dbj_type j = SINGLE)
        (jobsTable (snd (TasksService_update example_env
              \<lparr>u_where = \<lparr>w_id = ''t1'', w_userId = Some ''u''\<rparr>,
               u_fields = \<lparr>f_name = None, f_description = Undefined, f_dueTo = Value 9000,
                           f_repeat = Undefined, f_status = None, f_scheduleId = None\<rparr>\<rparr>
              example_world))) =
        [\<lparr>dbj_id = ''j1'', dbj_type = SINGLE, dbj_taskId = ''t1''\<rparr>]"
  using reschedule_leaves_store
    [where s = example_world and env = example_env and ?T2.0 = 9000
       and b = "\<lparr>dbj_id = ''j1'', dbj_type = SINGLE, dbj_taskId = ''t1''\<rparr>"
       and dto = "\<lparr>u_where = \<lparr>w_id = ''t1'', w_userId = Some ''u''\<rparr>,
                 u_fields = \<lparr>f_name = None, f_description = Undefined, f_dueTo = Value 9000,
                             f_repeat = Undefined, f_status = None, f_scheduleId = None\<rparr>\<rparr>"
       and now = 2000 and p = "\<lparr>rs_id = ''j1'', rs_executionDate = 9000\<rparr>"
       and q = "\<lparr>rc_id = ''j1'', rc_cron = ''* * * * *''\<rparr>"]
  by (simp add: example_world_def)

subsection \<open>Clearing the due date\<close>

text \<open>
  A patch whose only field is \<^verbatim>\<open>dueTo: null\<close> reaches the repository with every field
  \<^verbatim>\<open>undefined\<close>, because \<open>update\<close> maps the \<^verbatim>\<open>null\<close> to \<^verbatim>\<open>undefined\<close>: the row update
  throws and no job is touched.
\<close>

lemma update_only_dueTo_null_throws:
  "TasksService_update example_env \<lparr>u_where = \<lparr>w_id = ''t1'', w_userId = Some ''u''\<rparr>,
    u_fields = \<lparr>f_name = None, f_description = Undefined, f_dueTo = Null, f_repeat = Undefined,
                f_status = None, f_scheduleId = None\<rparr>\<rparr> example_world
   = (Inl (DatabaseException ''Failed to update one task''), example_world)"
  by (simp add: service_defs repo_defs monad_defs Let_def)


subsection \<open>The event handlers on the tasks service\<close>

lemma find_map_same:
  assumes "find P xs = Some t" "\<And>x. P (f x) = P x"
  shows "find P (map f xs) = Some (f t)"
  using assms by (induction xs) (auto split: if_splits)

lemma where_eta: "\<lparr>w_id = w_id w, w_userId = w_userId w\<rparr> = (w::whereClause)"
  by (cases w) simp

lemma TasksService_findOne_found:
  "find (matches (fo_where dto)) (tasksTable s) = Some t \<Longrightarrow>
   TasksService_findOne dto s = (Inr t, s)"
  by (simp add: TasksService_findOne_def TasksRepository_findOne_def andThen_def ret_def
      dbToDomain_def Let_def where_eta)

lemma TasksService_findOne_missing:
  "find (matches (fo_where dto)) (tasksTable s) = None \<Longrightarrow>
   TasksService_findOne dto s = (Inl (TaskNotFoundException (w_id (fo_where dto))), s)"
  by (simp add: TasksService_findOne_def TasksRepository_findOne_def andThen_def throw_def
      Let_def where_eta)

lemma TasksService_update_status:
  assumes "t \<in> set (tasksTable s)"
  shows "\<exists>u. TasksService_update env
           \<lparr>u_where = \<lparr>w_id = t_id t, w_userId = Some (t_userId t)\<rparr>,
            u_fields = \<lparr>f_name = None, f_description = Undefined, f_dueTo = Undefined,
                        f_repeat = Undefined, f_status = Some st, f_scheduleId = None\<rparr>\<rparr> s =
         (Inr u, s\<lparr>tasksTable := map (set_status st (env_now env) t) (tasksTable s)\<rparr>)"
proof -
  let ?w = "\<lparr>w_id = t_id t, w_userId = Some (t_userId t)\<rparr>"
  let ?f = "\<lparr>uf_description = Undefined, uf_dueTo = Undefined, uf_name = None,
             uf_repeat = Undefined, uf_scheduleId = None, uf_status = Some st\<rparr>"
  have sf: "(\<lambda>r. if matches ?w r then set_fields (env_now env) ?f r else r) =
            set_status st (env_now env) t"
    by (rule ext) (simp add: set_status_def set_fields_def set_nullable_def set_column_def)
  have m: "matches ?w t" by (simp add: matches_def truthy_def)
  have "matches ?w (set_status st (env_now env) t t)"
    using m by (simp add: set_status_def matches_def)
  then have "\<exists>x \<in> set (map (set_status st (env_now env) t) (tasksTable s)). matches ?w x"
    using assms by auto
  then obtain u where u: "find (matches ?w) (map (set_status st (env_now env) t) (tasksTable s)) = Some u"
    by (cases "find (matches ?w) (map (set_status st (env_now env) t) (tasksTable s))")
      (auto simp: find_None_iff)
  have r: "TasksRepository_update (env_now env) ?w ?f s =
        (Inr (Some u), s\<lparr>tasksTable := map (set_status st (env_now env) t) (tasksTable s)\<rparr>)"
    using u by (simp add: TasksRepository_update_def no_values_def Let_def sf)
  show ?thesis
    by (rule exI [of _ u])
      (simp add: TasksService_update_def Let_def andThen_def ret_def r
        JobsService_findByTaskId_def JobsRepository_findByTaskId_def update_dueTo_value_def
        update_dueTo_null_def update_repeat_value_def update_repeat_null_def dbToDomain_def)
qed


lemma set_status_matches: "matches w (set_status st now t r) = matches w r"
  by (simp add: set_status_def matches_def)

lemma handleDue_found:
  assumes f: "find (matches \<lparr>w_id = p_taskId payload, w_userId = None\<rparr>) (tasksTable s) = Some t"
  shows "TaskEventsController_handleDue env payload s =
     (Inr (),
      s\<lparr>tasksTable :=
           (if t_status t = NOT_STARTED \<or> t_status t = IN_PROGRESS
            then map (set_status FAILED (env_now env) t) (tasksTable s) else tasksTable s),
        published := published s @
           [(TaskEvent_DUE, \<lparr>ev_task_id = t_id t, ev_task_userId = t_userId t\<rparr>)]\<rparr>)"
proof -
  have fo: "TasksService_findOne \<lparr>fo_where = \<lparr>w_id = p_taskId payload, w_userId = None\<rparr>\<rparr> s
            = (Inr t, s)"
    using f by (simp add: TasksService_findOne_found)
  have ts: "t \<in> set (tasksTable s)" using f by (auto simp: find_Some_iff dest: nth_mem)
  from TasksService_update_status [OF ts, of env FAILED] obtain u where
    u: "TasksService_update env
           \<lparr>u_where = \<lparr>w_id = t_id t, w_userId = Some (t_userId t)\<rparr>,
            u_fields = \<lparr>f_name = None, f_description = Undefined, f_dueTo = Undefined,
                        f_repeat = Undefined, f_status = Some FAILED, f_scheduleId = None\<rparr>\<rparr> s =
         (Inr u, s\<lparr>tasksTable := map (set_status FAILED (env_now env) t) (tasksTable s)\<rparr>)"
    by blast
  show ?thesis
    by (simp add: TaskEventsController_handleDue_def handleDue_def andThen_def fo u ret_def
        noAwait_def EventsService_publish_def)
qed

lemma handleRepetition_found:
  assumes f: "find (matches \<lparr>w_id = p_taskId payload, w_userId = None\<rparr>) (tasksTable s) = Some t"
  shows "TaskEventsController_handleRepetition env payload s =
     (Inr (),
      s\<lparr>tasksTable := map (set_status NOT_STARTED (env_now env) t) (tasksTable s),
        published := published s @
           [(TaskEvent_REPEATED, \<lparr>ev_task_id = t_id t, ev_task_userId = t_userId t\<rparr>)]\<rparr>)"
proof -
  have fo: "TasksService_findOne \<lparr>fo_where = \<lparr>w_id = p_taskId payload, w_userId = None\<rparr>\<rparr> s
            = (Inr t, s)"
    using f by (simp add: TasksService_findOne_found)
  have ts: "t \<in> set (tasksTable s)" using f by (auto simp: find_Some_iff dest: nth_mem)
  from TasksService_update_status [OF ts, of env NOT_STARTED] obtain u where
    u: "TasksService_update env
           \<lparr>u_where = \<lparr>w_id = t_id t, w_userId = Some (t_userId t)\<rparr>,
            u_fields = \<lparr>f_name = None, f_description = Undefined, f_dueTo = Undefined,
                        f_repeat = Undefined, f_status = Some NOT_STARTED, f_scheduleId = None\<rparr>\<rparr> s =
         (Inr u, s\<lparr>tasksTable := map (set_status NOT_STARTED (env_now env) t) (tasksTable s)\<rparr>)"
    by blast
  show ?thesis
    by (simp add: TaskEventsController_handleRepetition_def handleRepetition_def andThen_def fo u
        ret_def noAwait_def EventsService_publish_def)
qed

lemma find_set_status:
  assumes "find (matches w) ts = Some t"
  shows "find (matches w) (map (set_status st now t) ts) = Some (t\<lparr>t_status := st, t_updatedAt := now\<rparr>)"
proof -
  have "find (matches w) (map (set_status st now t) ts) = Some (set_status st now t t)"
    using assms by (rule find_map_same) (rule set_status_matches)
  then show ?thesis by (simp add: set_status_def matches_def truthy_def)
qed

text \<open>
  Claim C7. Let the handler of \<open>TASK_DUE\<close> find the task \<open>t\<close>. If \<open>t\<close> is \<open>FAILED\<close> or
  \<open>DONE\<close>, the handler changes nothing but the bus: no row is updated, so status and
  \<^verbatim>\<open>updatedAt\<close> stay. If \<open>t\<close> is \<open>NOT_STARTED\<close> or \<open>IN_PROGRESS\<close>, the task found
  afterwards is \<open>t\<close> with status \<open>FAILED\<close> and the time of the update, and no job is
  touched. In both cases the handler returns and publishes \<open>TASK_DUE\<close> with the
  payload made of the task's id and user id. Handling the same acknowledgement a
  second time leaves the task table as the first handling left it and publishes the
  event once more.
\<close>

theorem handleDue_idempotent:
  "find (matches \<lparr>w_id = p_taskId payload, w_userId = None\<rparr>) (tasksTable s) = Some t \<Longrightarrow>
   ((t_status t = FAILED \<or> t_status t = DONE) \<longrightarrow>
      TaskEventsController_handleDue env payload s =
        (Inr (), s\<lparr>published := published s @
             [(TaskEvent_DUE, \<lparr>ev_task_id = t_id t, ev_task_userId = t_userId t\<rparr>)]\<rparr>))
   \<and> ((t_status t = NOT_STARTED \<or> t_status t = IN_PROGRESS) \<longrightarrow>
      (\<exists>s'. TaskEventsController_handleDue env payload s = (Inr (), s')
         \<and> find (matches \<lparr>w_id = p_taskId payload, w_userId = None\<rparr>) (tasksTable s') =
             Some (t\<lparr>t_status := FAILED, t_updatedAt := env_now env\<rparr>)
         \<and> published s' = published s @
             [(TaskEvent_DUE, \<lparr>ev_task_id = t_id t, ev_task_userId = t_userId t\<rparr>)]
         \<and> jobsTable s' = jobsTable s \<and> jobsEngine s' = jobsEngine s))
   \<and> tasksTable (snd (TaskEventsController_handleDue env' payload
                        (snd (TaskEventsController_handleDue env payload s)))) =
       tasksTable (snd (TaskEventsController_handleDue env payload s))
   \<and> published (snd (TaskEventsController_handleDue env' payload
                        (snd (TaskEventsController_handleDue env payload s)))) =
       published s @
         [(TaskEvent_DUE, \<lparr>ev_task_id = t_id t, ev_task_userId = t_userId t\<rparr>),
          (TaskEvent_DUE, \<lparr>ev_task_id = t_id t, ev_task_userId = t_userId t\<rparr>)]"
proof -
  let ?w = "\<lparr>w_id = p_taskId payload, w_userId = None\<rparr>"
  let ?ev = "(TaskEvent_DUE, \<lparr>ev_task_id = t_id t, ev_task_userId = t_userId t\<rparr>)"
  assume f: "find (matches ?w) (tasksTable s) = Some t"
  note h = handleDue_found [OF f, of env]
  let ?s1 = "snd (TaskEventsController_handleDue env payload s)"
  have a: "(t_status t = FAILED \<or> t_status t = DONE) \<longrightarrow>
      TaskEventsController_handleDue env payload s = (Inr (), s\<lparr>published := published s @ [?ev]\<rparr>)"
    using h by auto
  have b: "(t_status t = NOT_STARTED \<or> t_status t = IN_PROGRESS) \<longrightarrow>
      (\<exists>s'. TaskEventsController_handleDue env payload s = (Inr (), s')
         \<and> find (matches ?w) (tasksTable s') = Some (t\<lparr>t_status := FAILED, t_updatedAt := env_now env\<rparr>)
         \<and> published s' = published s @ [?ev]
         \<and> jobsTable s' = jobsTable s \<and> jobsEngine s' = jobsEngine s)"
    using h find_set_status [OF f, of FAILED "env_now env"] by auto
  obtain t' where f1: "find (matches ?w) (tasksTable ?s1) = Some t'"
    and st: "t_status t' = FAILED \<or> t_status t' = DONE"
    and i: "t_id t' = t_id t" "t_userId t' = t_userId t"
  proof (cases "t_status t = NOT_STARTED \<or> t_status t = IN_PROGRESS")
    case True
    with h find_set_status [OF f, of FAILED "env_now env"] that
      [of "t\<lparr>t_status := FAILED, t_updatedAt := env_now env\<rparr>"]
    show ?thesis by simp
  next
    case False
    then have "t_status t = FAILED \<or> t_status t = DONE" by (cases "t_status t") auto
    with False h f that [of t] show ?thesis by simp
  qed
  have p1: "published ?s1 = published s @ [?ev]" using h by simp
  note h2 = handleDue_found [OF f1, of env']
  have c: "tasksTable (snd (TaskEventsController_handleDue env' payload ?s1)) = tasksTable ?s1"
    using h2 st by auto
  have d: "published (snd (TaskEventsController_handleDue env' payload ?s1)) =
             published s @ [?ev, ?ev]"
    using h2 p1 i by simp
  from a b c d show ?thesis by blast
qed

theorem handleDue_idempotent_witness:
  "find (matches \<lparr>w_id = ''t1'', w_userId = None\<rparr>) (tasksTable example_world) = Some example_task
   \<and> (\<exists>s'. TaskEventsController_handleDue example_env
              \<lparr>p_taskId = ''t1'', p_taskName = ''n'', p_userId = ''u''\<rparr> example_world = (Inr (), s')
          \<and> find (matches \<lparr>w_id = ''t1'', w_userId = None\<rparr>) (tasksTable s') =
              Some (example_task\<lparr>t_status := FAILED, t_updatedAt := 2000\<rparr>)
          \<and> published s' = [(TaskEvent_DUE, \<lparr>ev_task_id = ''t1'', ev_task_userId = ''u''\<rparr>)])
   \<and> tasksTable (snd (TaskEventsController_handleDue example_env
                        \<lparr>p_taskId = ''t1'', p_taskName = ''n'', p_userId = ''u''\<rparr>
                        (snd (TaskEventsController_handleDue example_env
                               \<lparr>p_taskId = ''t1'', p_taskName = ''n'', p_userId = ''u''\<rparr>
                               example_world)))) =
       tasksTable (snd (TaskEventsController_handleDue example_env
                          \<lparr>p_taskId = ''t1'', p_taskName = ''n'', p_userId = ''u''\<rparr> example_world))"
proof -
  have h: "find (matches \<lparr>w_id = ''t1'', w_userId = None\<rparr>) (tasksTable example_world) =
             Some example_task"
    by (simp add: example_world_def example_task_def matches_def truthy_def)
  have st: "t_status example_task = NOT_STARTED" "t_id example_task = ''t1''"
    "t_userId example_task = ''u''" "env_now example_env = 2000" "published example_world = []"
    by (simp_all add: example_task_def example_env_def example_cronError_def example_world_def)
  from handleDue_idempotent
    [where payload = "\<lparr>p_taskId = ''t1'', p_taskName = ''n'', p_userId = ''u''\<rparr>"
       and s = example_world and t = example_task and env = example_env and env' = example_env]
    h st
  show ?thesis by auto
qed

text \<open>
  Claim C9. When the handler of \<open>TASK_REPEATED\<close> finds the task \<open>t\<close>, whatever its
  status, it returns; the task found afterwards is \<open>t\<close> with status \<open>NOT_STARTED\<close> and
  the time of the update; exactly one event is published, \<open>TASK_REPEATED\<close> with the
  task's id and user id; no job is touched.
\<close>

theorem handleRepetition_resets:
  "find (matches \<lparr>w_id = p_taskId payload, w_userId = None\<rparr>) (tasksTable s) = Some t \<Longrightarrow>
   (\<exists>s'. TaskEventsController_handleRepetition env payload s = (Inr (), s')
      \<and> find (matches \<lparr>w_id = p_taskId payload, w_userId = None\<rparr>) (tasksTable s') =
          Some (t\<lparr>t_status := NOT_STARTED, t_updatedAt := env_now env\<rparr>)
      \<and> published s' = published s @
          [(TaskEvent_REPEATED, \<lparr>ev_task_id = t_id t, ev_task_userId = t_userId t\<rparr>)]
      \<and> jobsTable s' = jobsTable s \<and> jobsEngine s' = jobsEngine s)"
  using handleRepetition_found [of payload s t env] find_set_status [of _ "tasksTable s" t NOT_STARTED "env_now env"]
  by simp

theorem handleRepetition_resets_witness:
  "find (matches \<lparr>w_id = ''t1'', w_userId = None\<rparr>)
     (tasksTable (example_world\<lparr>tasksTable := [example_task\<lparr>t_status := IN_PROGRESS\<rparr>]\<rparr>)) =
     Some (example_task\<lparr>t_status := IN_PROGRESS\<rparr>)
   \<and> (\<exists>s'. TaskEventsController_handleRepetition example_env
              \<lparr>p_taskId = ''t1'', p_taskName = ''n'', p_userId = ''u''\<rparr>
              (example_world\<lparr>tasksTable := [example_task\<lparr>t_status := IN_PROGRESS\<rparr>]\<rparr>) = (Inr (), s')
          \<and> find (matches \<lparr>w_id = ''t1'', w_userId = None\<rparr>) (tasksTable s') =
              Some (example_task\<lparr>t_status := NOT_STARTED, t_updatedAt := 2000\<rparr>)
          \<and> published s' = [(TaskEvent_REPEATED, \<lparr>ev_task_id = ''t1'', ev_task_userId = ''u''\<rparr>)])"
proof -
  let ?s = "example_world\<lparr>tasksTable := [example_task\<lparr>t_status := IN_PROGRESS\<rparr>]\<rparr>"
  have h: "find (matches \<lparr>w_id = ''t1'', w_userId = None\<rparr>) (tasksTable ?s) =
             Some (example_task\<lparr>t_status := IN_PROGRESS\<rparr>)"
    by (simp add: example_task_def matches_def truthy_def)
  have st: "t_id example_task = ''t1''"
    "t_userId example_task = ''u''" "env_now example_env = 2000" "published example_world = []"
    by (simp_all add: example_task_def example_env_def example_cronError_def example_world_def)
  from handleRepetition_resets
    [where payload = "\<lparr>p_taskId = ''t1'', p_taskName = ''n'', p_userId = ''u''\<rparr>"
       and s = ?s and t = "example_task\<lparr>t_status := IN_PROGRESS\<rparr>" and env = example_env]
    h st
  show ?thesis by auto
qed

subsection \<open>The handlers catch every error\<close>




subsection \<open>Removing a task\<close>


















end
